theory Spec2Isabelle
  imports Main "HOL-Library.Sublist"
begin

section \<open>JavaScript values and string helpers used by the IMAP driver\<close>

text \<open>
  The driver is \<^verbatim>\<open>apps/server/src/lib/driver/imap.ts\<close>. Strings are byte strings; integers
  are \<open>int\<close> (the driver only handles UIDs, sequence numbers and page sizes). A number that
  may be \<^verbatim>\<open>NaN\<close> (the result of \<^verbatim>\<open>parseInt\<close>, or of arithmetic on \<^verbatim>\<open>undefined\<close>) is an
  \<open>int option\<close> with \<open>None\<close> for \<^verbatim>\<open>NaN\<close>. A value that may be \<^verbatim>\<open>undefined\<close> is an option.
\<close>

type_synonym jsnum = "int option"

text \<open>\<^verbatim>\<open>s.split(c)\<close> for a one-character separator: at least one part, also for the empty string.\<close>

fun split_on :: "char \<Rightarrow> string \<Rightarrow> string list" where
  "split_on c [] = [[]]"
| "split_on c (x # xs) =
     (if x = c then [] # split_on c xs
      else (case split_on c xs of
              p # ps \<Rightarrow> (x # p) # ps
            | [] \<Rightarrow> [[x]]))"

text \<open>\<^verbatim>\<open>xs[i]\<close>: \<^verbatim>\<open>undefined\<close> out of range.\<close>

definition index_or_undefined :: "'a list \<Rightarrow> nat \<Rightarrow> 'a option" where
  "index_or_undefined xs i = (if i < length xs then Some (xs ! i) else None)"

definition is_space :: "char \<Rightarrow> bool" where
  "is_space c = (c \<in> set [CHR 0x09, CHR 0x0A, CHR 0x0B, CHR 0x0C, CHR 0x0D, CHR '' ''])"

definition is_digit :: "char \<Rightarrow> bool" where
  "is_digit c = (48 \<le> (of_char c :: nat) \<and> (of_char c :: nat) \<le> 57)"

definition digit_val :: "char \<Rightarrow> nat" where
  "digit_val c = of_char c - 48"

fun digits_val :: "nat \<Rightarrow> string \<Rightarrow> nat" where
  "digits_val acc [] = acc"
| "digits_val acc (c # cs) = digits_val (acc * 10 + digit_val c) cs"

text \<open>
  \<^verbatim>\<open>parseInt(s, 10)\<close>: leading white space is skipped, a sign is read, then the longest run
  of decimal digits; \<^verbatim>\<open>NaN\<close> when there is none. \<^verbatim>\<open>parseInt(undefined, 10)\<close> reads the
  string \<^verbatim>\<open>"undefined"\<close> and is \<^verbatim>\<open>NaN\<close>. White space is the ASCII white space (tab, line
  feed, vertical tab, form feed, carriage return, space).
\<close>

definition parseInt10 :: "string option \<Rightarrow> jsnum" where
  "parseInt10 so =
     (case so of
        None \<Rightarrow> None
      | Some s \<Rightarrow>
          (let t = dropWhile is_space s;
               neg = (case t of c # _ \<Rightarrow> c = CHR ''-'' | [] \<Rightarrow> False);
               u = (case t of c # r \<Rightarrow> if c = CHR ''-'' \<or> c = CHR ''+'' then r else t | [] \<Rightarrow> []);
               ds = takeWhile is_digit u
           in if ds = [] then None
              else Some ((if neg then - 1 else 1) * int (digits_val 0 ds))))"

definition digit_char :: "nat \<Rightarrow> char" where
  "digit_char d = char_of (48 + d)"

text \<open>The decimal rendering of an integer, as a template literal \<^verbatim>\<open>${n}\<close> gives it.\<close>

function show_nat :: "nat \<Rightarrow> string" where
  "show_nat n = (if n < 10 then [digit_char n] else show_nat (n div 10) @ [digit_char (n mod 10)])"
  by pat_completeness auto
termination
  by (relation "measure (\<lambda>n. n)") auto

declare show_nat.simps [simp del]

definition show_int :: "int \<Rightarrow> string" where
  "show_int i = (if i < 0 then CHR ''-'' # show_nat (nat (- i)) else show_nat (nat i))"

definition show_jsnum :: "jsnum \<Rightarrow> string" where
  "show_jsnum n = (case n of None \<Rightarrow> ''NaN'' | Some i \<Rightarrow> show_int i)"

text \<open>\<^verbatim>\<open>${s}\<close> for a string that may be \<^verbatim>\<open>undefined\<close>.\<close>

definition show_str :: "string option \<Rightarrow> string" where
  "show_str so = (case so of None \<Rightarrow> ''undefined'' | Some s \<Rightarrow> s)"

text \<open>\<^verbatim>\<open>a || b\<close> on strings: the empty string and \<^verbatim>\<open>undefined\<close> are falsy.\<close>

definition truthy :: "string option \<Rightarrow> bool" where
  "truthy so = (case so of None \<Rightarrow> False | Some s \<Rightarrow> s \<noteq> [])"

definition or_else :: "string option \<Rightarrow> string \<Rightarrow> string" where
  "or_else so d = (case so of None \<Rightarrow> d | Some s \<Rightarrow> if s = [] then d else s)"

definition or_opt :: "string option \<Rightarrow> string option \<Rightarrow> string option" where
  "or_opt a b = (if truthy a then a else b)"

text \<open>\<^verbatim>\<open>s.toLowerCase()\<close> on ASCII letters; other bytes are kept.\<close>

definition lower_char :: "char \<Rightarrow> char" where
  "lower_char c =
     (if 65 \<le> (of_char c :: nat) \<and> (of_char c :: nat) \<le> 90 then char_of ((of_char c :: nat) + 32) else c)"

definition toLowerCase :: "string \<Rightarrow> string" where
  "toLowerCase s = map lower_char s"

text \<open>\<^verbatim>\<open>hay.includes(needle)\<close> and \<^verbatim>\<open>s.startsWith(p)\<close>.\<close>

definition str_includes :: "string \<Rightarrow> string \<Rightarrow> bool" where
  "str_includes hay needle = sublist needle hay"

definition startsWith :: "string \<Rightarrow> string \<Rightarrow> bool" where
  "startsWith s p = prefix p s"

text \<open>
  \<^verbatim>\<open>xs.slice(0, n)\<close>: a negative end counts from the end of the array.
\<close>

definition slice0 :: "'a list \<Rightarrow> int \<Rightarrow> 'a list" where
  "slice0 xs n = (if n < 0 then take (nat (int (length xs) + n)) xs else take (nat n) xs)"

text \<open>\<^verbatim>\<open>[...uids].sort((a, b) => b - a)\<close>: descending numeric order.\<close>

definition sort_desc :: "int list \<Rightarrow> int list" where
  "sort_desc xs = rev (sort xs)"

section \<open>Thrown values\<close>

text \<open> A raw error is any object the IMAP or SMTP library, the parser or the
  driver itself throws; the driver reads \<^verbatim>\<open>code\<close>, \<^verbatim>\<open>message\<close> and \<^verbatim>\<open>response.status\<close> of it, and
  formats it with \<^verbatim>\<open>String(error)\<close>.\<close>

record raw_error =
  err_code :: "string option"
  err_message :: "string option"
  err_response_status :: "string option"
  err_string :: string

definition type_error :: "string \<Rightarrow> raw_error" where
  "type_error msg =
     \<lparr>err_code = None, err_message = Some msg, err_response_status = None,
      err_string = ''TypeError: '' @ msg\<rparr>"

definition new_Error :: "string \<Rightarrow> raw_error" where
  "new_Error msg =
     \<lparr>err_code = None, err_message = Some msg, err_response_status = None,
      err_string = ''Error: '' @ msg\<rparr>"

section \<open>Host selection (\<^verbatim>\<open>getImapHost\<close>, \<^verbatim>\<open>getSmtpHost\<close>) and the constructor\<close>

text \<open>\<^verbatim>\<open>email.split('@')[1].toLowerCase()\<close>: a \<^verbatim>\<open>TypeError\<close> when the address has no \<^verbatim>\<open>@\<close>.\<close>

definition email_domain :: "string \<Rightarrow> raw_error + string" where
  "email_domain email =
     (case index_or_undefined (split_on CHR ''@'' email) 1 of
        None \<Rightarrow> Inl (type_error ''Cannot read properties of undefined (reading toLowerCase)'')
      | Some d \<Rightarrow> Inr (toLowerCase d))"

definition getImapHost :: "string \<Rightarrow> raw_error + string" where
  "getImapHost email =
     (case email_domain email of
        Inl e \<Rightarrow> Inl e
      | Inr domain \<Rightarrow>
          Inr (if domain = ''gmail.com'' then ''imap.gmail.com''
               else if domain = ''outlook.com'' \<or> domain = ''hotmail.com'' \<or> domain = ''live.com''
                 then ''outlook.office365.com''
               else if domain = ''yahoo.com'' then ''imap.mail.yahoo.com''
               else if domain = ''aol.com'' then ''imap.aol.com''
               else if domain = ''icloud.com'' then ''imap.mail.me.com''
               else ''imap.'' @ domain))"

definition getSmtpHost :: "string \<Rightarrow> raw_error + string" where
  "getSmtpHost email =
     (case email_domain email of
        Inl e \<Rightarrow> Inl e
      | Inr domain \<Rightarrow>
          Inr (if domain = ''gmail.com'' then ''smtp.gmail.com''
               else if domain = ''outlook.com'' \<or> domain = ''hotmail.com'' \<or> domain = ''live.com''
                 then ''smtp.office365.com''
               else if domain = ''yahoo.com'' then ''smtp.mail.yahoo.com''
               else if domain = ''aol.com'' then ''smtp.aol.com''
               else if domain = ''icloud.com'' then ''smtp.mail.me.com''
               else ''smtp.'' @ domain))"

text \<open>
  \<^verbatim>\<open>ManagerConfig\<close>: the driver reads \<^verbatim>\<open>config.auth\<close> only. The record is extensible, so a
  configuration object that carries further fields (TypeScript's structural typing admits
  them) is a value of \<open>'a manager_config_scheme\<close>.
\<close>

record auth =
  auth_userId :: string
  auth_accessToken :: string
  auth_refreshToken :: string
  auth_email :: string

record manager_config =
  cfg_auth :: auth

record imap_client_options =
  imap_user :: string
  imap_password :: string
  imap_host :: string
  imap_port :: nat
  imap_tls :: bool
  imap_rejectUnauthorized :: bool
  imap_authTimeout :: nat

record smtp_transport_options =
  smtp_host :: string
  smtp_port :: nat
  smtp_secure :: bool
  smtp_user :: string
  smtp_pass :: string

text \<open>The constructor: the options of the two clients it creates.\<close>

definition constructor :: "'a manager_config_scheme \<Rightarrow> raw_error + (imap_client_options \<times> smtp_transport_options)" where
  "constructor config =
     (case getImapHost (auth_email (cfg_auth config)) of
        Inl e \<Rightarrow> Inl e
      | Inr ihost \<Rightarrow>
          (case getSmtpHost (auth_email (cfg_auth config)) of
             Inl e \<Rightarrow> Inl e
           | Inr shost \<Rightarrow>
               Inr (\<lparr>imap_user = auth_email (cfg_auth config),
                     imap_password = auth_accessToken (cfg_auth config),
                     imap_host = ihost, imap_port = 993, imap_tls = True,
                     imap_rejectUnauthorized = False, imap_authTimeout = 30000\<rparr>,
                    \<lparr>smtp_host = shost, smtp_port = 465, smtp_secure = True,
                     smtp_user = auth_email (cfg_auth config),
                     smtp_pass = auth_accessToken (cfg_auth config)\<rparr>)))"

text \<open>
  The provider table of the specification, for comparison with the two \<^verbatim>\<open>switch\<close>
  statements: the domain, its IMAP host and its SMTP host.
\<close>

definition provider_table :: "(string \<times> string \<times> string) list" where
  "provider_table =
     [(''gmail.com'', ''imap.gmail.com'', ''smtp.gmail.com''),
      (''outlook.com'', ''outlook.office365.com'', ''smtp.office365.com''),
      (''hotmail.com'', ''outlook.office365.com'', ''smtp.office365.com''),
      (''live.com'', ''outlook.office365.com'', ''smtp.office365.com''),
      (''yahoo.com'', ''imap.mail.yahoo.com'', ''smtp.mail.yahoo.com''),
      (''aol.com'', ''imap.aol.com'', ''smtp.aol.com''),
      (''icloud.com'', ''imap.mail.me.com'', ''smtp.mail.me.com'')]"

definition table_hosts :: "string \<Rightarrow> string \<times> string" where
  "table_hosts domain =
     (case map_of provider_table domain of
        Some hs \<Rightarrow> hs
      | None \<Rightarrow> (''imap.'' @ domain, ''smtp.'' @ domain))"

section \<open>Parsed mail and the driver's message format\<close>

text \<open>What \<^verbatim>\<open>simpleParser\<close> returns, as far as the driver reads it.\<close>

record address =
  addr_name :: "string option"
  addr_address :: "string option"

record parsed_attachment =
  att_filename :: "string option"
  att_contentType :: string
  att_size :: nat
  att_contentId :: "string option"
  att_content :: string

record parsed_email =
  pe_from :: "address list option"
  pe_to :: "address list option"
  pe_cc :: "address list option"
  pe_messageId :: "string option"
  pe_subject :: "string option"
  pe_html :: "string option"
  pe_textAsHtml :: "string option"
  pe_text :: "string option"
  pe_references :: "string option"
  pe_inReplyTo :: "string option"
  pe_flags :: "string list option"
  pe_date :: "string option"
  pe_attachments :: "parsed_attachment list option"

record person =
  p_name :: string
  p_email :: string

record app_attachment =
  aa_filename :: "string option"
  aa_mimeType :: string
  aa_size :: nat
  aa_attachmentId :: "string option"
  aa_headers :: "string list"
  aa_body :: string

record tag =
  tag_id :: string
  tag_name :: string
  tag_type :: string

record parsed_message =
  pm_id :: string
  pm_threadId :: string
  pm_title :: string
  pm_body :: string
  pm_decodedBody :: string
  pm_processedHtml :: string
  pm_blobUrl :: string
  pm_messageId :: string
  pm_tls :: bool
  pm_references :: string
  pm_inReplyTo :: string
  pm_sender :: person
  pm_unread :: bool
  pm_to :: "person list"
  pm_cc :: "person list option"
  pm_receivedOn :: string
  pm_subject :: string
  pm_attachments :: "app_attachment list"
  pm_totalReplies :: nat
  pm_tags :: "tag list"

text \<open>The flag the driver looks for: a backslash followed by \<^verbatim>\<open>Seen\<close>.\<close>

definition Seen_flag :: string where
  "Seen_flag = CHR 0x5C # ''Seen''"

definition Deleted_flag :: string where
  "Deleted_flag = CHR 0x5C # ''Deleted''"

definition to_person :: "address \<Rightarrow> person" where
  "to_person addr = \<lparr>p_name = or_else (addr_name addr) [], p_email = or_else (addr_address addr) []\<rparr>"

text \<open>
  \<^verbatim>\<open>convertToAppMessage(email, id, mailbox)\<close>. \<open>b64\<close> is \<^verbatim>\<open>Buffer.toString('base64')\<close> and
  \<open>now\<close> is \<^verbatim>\<open>new Date().toString()\<close>, both taken as parameters.
\<close>

definition convertToAppMessage ::
  "(string \<Rightarrow> string) \<Rightarrow> string \<Rightarrow> parsed_email \<Rightarrow> string \<Rightarrow> string \<Rightarrow> parsed_message" where
  "convertToAppMessage b64 now eml ident mailbox =
     (let sender = (case pe_from eml of
                      Some vs \<Rightarrow> (case vs of
                                    v # _ \<Rightarrow> to_person v
                                  | [] \<Rightarrow> \<lparr>p_name = [], p_email = []\<rparr>)
                    | None \<Rightarrow> \<lparr>p_name = [], p_email = []\<rparr>);
          toRecipients = (case pe_to eml of Some vs \<Rightarrow> map to_person vs | None \<Rightarrow> []);
          ccRecipients = (case pe_cc eml of Some vs \<Rightarrow> Some (map to_person vs) | None \<Rightarrow> None);
          messageId = or_else (pe_messageId eml) ident;
          threadId = or_else (pe_messageId eml) ident
      in \<lparr>pm_id = ident,
          pm_threadId = threadId,
          pm_title = or_else (pe_subject eml) ''(no subject)'',
          pm_body = [],
          pm_decodedBody = or_else (or_opt (pe_html eml) (or_opt (pe_textAsHtml eml) (pe_text eml))) [],
          pm_processedHtml = or_else (or_opt (pe_html eml) (or_opt (pe_textAsHtml eml) (pe_text eml))) [],
          pm_blobUrl = [],
          pm_messageId = messageId,
          pm_tls = True,
          pm_references = or_else (pe_references eml) [],
          pm_inReplyTo = or_else (pe_inReplyTo eml) [],
          pm_sender = sender,
          pm_unread = (case pe_flags eml of None \<Rightarrow> True | Some fs \<Rightarrow> Seen_flag \<notin> set fs),
          pm_to = toRecipients,
          pm_cc = ccRecipients,
          pm_receivedOn = or_else (pe_date eml) now,
          pm_subject = or_else (pe_subject eml) ''(no subject)'',
          pm_attachments =
            map (\<lambda>att. \<lparr>aa_filename = att_filename att,
                        aa_mimeType = att_contentType att,
                        aa_size = att_size att,
                        aa_attachmentId = or_opt (att_contentId att) (att_filename att),
                        aa_headers = [],
                        aa_body = b64 (att_content att)\<rparr>)
              (case pe_attachments eml of Some as \<Rightarrow> as | None \<Rightarrow> []),
          pm_totalReplies = 1,
          pm_tags = [\<lparr>tag_id = mailbox, tag_name = mailbox, tag_type = ''folder''\<rparr>]\<rparr>)"

definition normalizeMailbox :: "string \<Rightarrow> string" where
  "normalizeMailbox folder =
     (let f = toLowerCase folder in
      if f = ''inbox'' then ''INBOX''
      else if f = ''sent'' then ''Sent''
      else if f = ''drafts'' then ''Drafts''
      else if f = ''bin'' \<or> f = ''trash'' then ''Trash''
      else if f = ''spam'' then ''Spam''
      else if f = ''archive'' then ''Archive''
      else folder)"

section \<open>The IMAP client, the SMTP transport and the other collaborators\<close>

text \<open>
  The driver talks to the \<^verbatim>\<open>imap\<close> client, the \<^verbatim>\<open>nodemailer\<close> transport, \<^verbatim>\<open>mailparser\<close> and
  the helpers of \<^verbatim>\<open>./utils\<close>; none of them is part of the driver. Every call the driver makes
  on them is recorded, in order, in a history; what a call answers is given by an
  environment, as a function of the history up to and including that call. So the
  environment stands for any deterministic behaviour of the server and the libraries.
\<close>

datatype criterion = CritAll | CritSubject string

record fetch_options =
  fo_bodies :: string
  fo_struct :: bool
  fo_markSeen :: "bool option"

record mail_attachment =
  ma_filename :: string
  ma_content :: string
  ma_contentType :: string

record send_mail_options =
  mail_from :: string
  mail_to :: "string list"
  mail_cc :: "string list option"
  mail_bcc :: "string list option"
  mail_subject :: string
  mail_html :: string
  mail_attachments :: "mail_attachment list"
  mail_headers :: "(string \<times> string) list option"
  mail_envelope :: "(string \<times> string list) option"

datatype call =
    ImapOnce string
  | ImapConnect
  | ImapOpenBox string
  | ImapSearch "criterion list"
  | ImapFetch "jsnum list" fetch_options
  | ImapMove "jsnum list" string
  | ImapAddFlags "jsnum list" string
  | ImapDelFlags "jsnum list" string
  | ImapGetBoxes
  | ImapAddBox string
  | ImapRenameBox string string
  | ImapDelBox string
  | SmtpSendMail send_mail_options
  | DeleteActiveConnection string

type_synonym history = "call list"

text \<open>After \<^verbatim>\<open>imap.connect()\<close> the client emits \<^verbatim>\<open>ready\<close>, emits \<^verbatim>\<open>error\<close>, or stays silent.\<close>

datatype conn_event = EvReady | EvError raw_error | EvNone

text \<open>
  One \<^verbatim>\<open>message\<close> event of a fetch: the sequence number the client passes as the second
  argument of the listener, the body chunks of its stream, and the UID of the message on
  the server (an attribute the driver never reads).
\<close>

record fetch_event =
  ev_seqno :: int
  ev_uid :: int
  ev_chunks :: "string list"

datatype box = Box "(string \<times> box) list option"

text \<open>
  The environment. \<open>errback\<close> answers every call of the client that takes an
  \<^verbatim>\<open>(err) => ...\<close> callback (\<^verbatim>\<open>openBox\<close>, \<^verbatim>\<open>move\<close>, \<^verbatim>\<open>addFlags\<close>, \<^verbatim>\<open>delFlags\<close>, \<^verbatim>\<open>addBox\<close>,
  \<^verbatim>\<open>renameBox\<close>, \<^verbatim>\<open>delBox\<close>) with the error it passes, if any. \<open>fetch_emits\<close> gives the
  \<^verbatim>\<open>message\<close> events of a fetch and whether it ends with \<^verbatim>\<open>error\<close> or \<^verbatim>\<open>end\<close>. \<open>box_total\<close> is
  \<^verbatim>\<open>this.imap._box.messages.total\<close>, with \<open>None\<close> when there is no open box. \<open>FatalErrors\<close>,
  \<^verbatim>\<open>deleteActiveConnection\<close>, \<^verbatim>\<open>simpleParser\<close>, \<^verbatim>\<open>sanitizeTipTapHtml\<close>, the base64 encoding
  of a buffer, the clock and the random suffix of a draft id are taken as given.
\<close>

record env =
  FatalErrors :: "string list"
  connect_emits :: "history \<Rightarrow> conn_event"
  errback :: "history \<Rightarrow> raw_error option"
  search_result :: "history \<Rightarrow> raw_error + int list"
  fetch_emits :: "history \<Rightarrow> fetch_event list \<times> raw_error option"
  getBoxes_result :: "history \<Rightarrow> raw_error + (string \<times> box) list"
  box_total :: "history \<Rightarrow> int option"
  sendMail_result :: "history \<Rightarrow> raw_error + string option"
  deleteActiveConnection_result :: "history \<Rightarrow> raw_error option"
  simpleParser :: "string \<Rightarrow> raw_error + parsed_email"
  sanitizeTipTapHtml :: "string \<Rightarrow> raw_error + string"
  base64 :: "string \<Rightarrow> string"
  date_now :: "history \<Rightarrow> int"
  date_string :: "history \<Rightarrow> string"
  random_suffix :: "history \<Rightarrow> string"

text \<open>
  \<^verbatim>\<open>StandardizedError\<close> (of \<^verbatim>\<open>./utils\<close>) carries the details it is built from. The
  \<^verbatim>\<open>context\<close> field is \<^verbatim>\<open>sanitizeContext({...context, error})\<close>; no caller passes a context,
  and the record keeps the error handed to \<^verbatim>\<open>sanitizeContext\<close>.
\<close>

record standardized_error =
  std_code :: string
  std_status :: nat
  std_operation :: string
  std_message :: string
  std_context :: raw_error
  std_fatal :: bool

datatype thrown = Raw raw_error | Std standardized_error

text \<open>
  A \<^verbatim>\<open>StandardizedError\<close> caught again by an outer handler (\<^verbatim>\<open>sendDraft\<close> calls \<^verbatim>\<open>delete\<close>) is
  read through its \<^verbatim>\<open>code\<close> and \<^verbatim>\<open>message\<close> fields, as the class of the driver's test
  defines them (\<^verbatim>\<open>Object.assign(this, details)\<close> on an \<^verbatim>\<open>Error\<close>).
\<close>

definition as_raw :: "thrown \<Rightarrow> raw_error" where
  "as_raw t =
     (case t of
        Raw e \<Rightarrow> e
      | Std s \<Rightarrow> \<lparr>err_code = Some (std_code s), err_message = Some (std_message s),
                   err_response_status = None, err_string = ''Error: '' @ std_message s\<rparr>)"

text \<open>
  An asynchronous computation settles with a value, rejects with a thrown value, or never
  settles; it extends the history by the calls it made.
\<close>

datatype 'a outcome = Returned 'a | Threw thrown | Pending

type_synonym 'a prog = "env \<Rightarrow> history \<Rightarrow> 'a outcome \<times> history"

definition ret :: "'a \<Rightarrow> 'a prog" where
  "ret x env h = (Returned x, h)"

definition throw :: "thrown \<Rightarrow> 'a prog" where
  "throw t env h = (Threw t, h)"

definition await :: "'a prog \<Rightarrow> ('a \<Rightarrow> 'b prog) \<Rightarrow> 'b prog" where
  "await m f env h =
     (case m env h of
        (Returned x, h') \<Rightarrow> f x env h'
      | (Threw t, h') \<Rightarrow> (Threw t, h')
      | (Pending, h') \<Rightarrow> (Pending, h'))"

definition try_catch :: "'a prog \<Rightarrow> (thrown \<Rightarrow> 'a prog) \<Rightarrow> 'a prog" where
  "try_catch m handler env h =
     (case m env h of
        (Threw t, h') \<Rightarrow> handler t env h'
      | r \<Rightarrow> r)"

text \<open>Reading the environment at the current history (\<^verbatim>\<open>Date.now()\<close>, \<^verbatim>\<open>this.imap._box\<close>).\<close>

definition ask :: "(env \<Rightarrow> history \<Rightarrow> 'a) \<Rightarrow> 'a prog" where
  "ask f env h = (Returned (f env h), h)"

text \<open>
  \<^verbatim>\<open>Promise.all(xs.map(async (x) => ...))\<close> and a sequential \<^verbatim>\<open>for\<close> loop with \<^verbatim>\<open>await\<close> in
  its body. The callbacks given to \<^verbatim>\<open>Promise.all\<close> in the driver either make no call that
  can fail (parsing, reading a file) or catch their own errors, so running them one after
  the other records the same calls; of several rejections the first in list order is kept.
\<close>

fun await_all :: "('a \<Rightarrow> 'b prog) \<Rightarrow> 'a list \<Rightarrow> 'b list prog" where
  "await_all f [] = ret []"
| "await_all f (x # xs) = await (f x) (\<lambda>y. await (await_all f xs) (\<lambda>ys. ret (y # ys)))"

fun for_each :: "'a list \<Rightarrow> ('a \<Rightarrow> unit prog) \<Rightarrow> unit prog" where
  "for_each [] body = ret ()"
| "for_each (x # xs) body = await (body x) (\<lambda>_. for_each xs body)"

subsection \<open>The private wrappers\<close>

definition connectImap :: "unit prog" where
  "connectImap env h =
     (let h' = h @ [ImapOnce ''ready'', ImapOnce ''error'', ImapConnect] in
      case connect_emits env h' of
        EvReady \<Rightarrow> (Returned (), h')
      | EvError err \<Rightarrow> (Threw (Raw err), h')
      | EvNone \<Rightarrow> (Pending, h'))"

text \<open>A promise around one call of the client that takes a \<^verbatim>\<open>(err) => ...\<close> callback.\<close>

definition errback_call :: "call \<Rightarrow> unit prog" where
  "errback_call c env h =
     (let h' = h @ [c] in
      case errback env h' of
        Some err \<Rightarrow> (Threw (Raw err), h')
      | None \<Rightarrow> (Returned (), h'))"

definition openMailbox :: "string \<Rightarrow> unit prog" where
  "openMailbox mailbox = errback_call (ImapOpenBox mailbox)"

definition searchEmails :: "criterion list \<Rightarrow> int list prog" where
  "searchEmails criteria env h =
     (let h' = h @ [ImapSearch criteria] in
      case search_result env h' of
        Inl err \<Rightarrow> (Threw (Raw err), h')
      | Inr uids \<Rightarrow> (Returned uids, h'))"

record message =
  msg_uid :: int
  msg_raw :: string

definition fetchMessages :: "jsnum list \<Rightarrow> fetch_options \<Rightarrow> message list prog" where
  "fetchMessages uids options env h =
     (if uids = [] then (Returned [], h)
      else (let h' = h @ [ImapFetch uids options] in
            case fetch_emits env h' of
              (evs, Some err) \<Rightarrow> (Threw (Raw err), h')
            | (evs, None) \<Rightarrow>
                (Returned (map (\<lambda>ev. \<lparr>msg_uid = ev_seqno ev, msg_raw = concat (ev_chunks ev)\<rparr>) evs), h')))"

definition parseEmail :: "string \<Rightarrow> parsed_email prog" where
  "parseEmail rawEmail env h =
     (case simpleParser env rawEmail of
        Inl err \<Rightarrow> (Threw (Raw err), h)
      | Inr parsed \<Rightarrow> (Returned parsed, h))"

definition sendMail :: "send_mail_options \<Rightarrow> string option prog" where
  "sendMail mail env h =
     (let h' = h @ [SmtpSendMail mail] in
      case sendMail_result env h' of
        Inl err \<Rightarrow> (Threw (Raw err), h')
      | Inr messageId \<Rightarrow> (Returned messageId, h'))"

definition sanitize :: "string \<Rightarrow> string prog" where
  "sanitize html env h =
     (case sanitizeTipTapHtml env html of
        Inl err \<Rightarrow> (Threw (Raw err), h)
      | Inr clean \<Rightarrow> (Returned clean, h))"

definition deleteActiveConnection :: "string \<Rightarrow> unit prog" where
  "deleteActiveConnection uid env h =
     (let h' = h @ [DeleteActiveConnection uid] in
      case deleteActiveConnection_result env h' of
        Some err \<Rightarrow> (Threw (Raw err), h')
      | None \<Rightarrow> (Returned (), h'))"

subsection \<open>\<^verbatim>\<open>withErrorHandler\<close>\<close>

definition message_includes :: "raw_error \<Rightarrow> string \<Rightarrow> bool" where
  "message_includes err s = (case err_message err of None \<Rightarrow> False | Some m \<Rightarrow> str_includes m s)"

definition code_startsWith :: "raw_error \<Rightarrow> string \<Rightarrow> bool" where
  "code_startsWith err s = (case err_code err of None \<Rightarrow> False | Some c \<Rightarrow> startsWith c s)"

definition in_FatalErrors :: "env \<Rightarrow> string option \<Rightarrow> bool" where
  "in_FatalErrors env v = (case v of None \<Rightarrow> False | Some c \<Rightarrow> c \<in> set (FatalErrors env))"

text \<open>The \<^verbatim>\<open>catch\<close> block: the first matching signature decides what is thrown.\<close>

definition handle_error :: "'c manager_config_scheme \<Rightarrow> string \<Rightarrow> raw_error \<Rightarrow> 'a prog" where
  "handle_error config operation err env h =
     (if err_code err = Some ''ECONNREFUSED'' \<or> err_code err = Some ''ETIMEDOUT''
         \<or> err_code err = Some ''ENOTFOUND'' then
        throw (Std \<lparr>std_code = ''CONNECTION_REFUSED'', std_status = 503, std_operation = operation,
                    std_message = ''Connection to IMAP server failed: '' @ show_str (err_message err),
                    std_context = err, std_fatal = True\<rparr>) env h
      else if err_code err = Some ''AUTHENTICATIONFAILED'' \<or> err_code err = Some ''INVALIDCREDENTIALS'' then
        (let e = Std \<lparr>std_code = ''AUTHENTICATION_ERROR'', std_status = 401, std_operation = operation,
                      std_message = ''IMAP authentication failed. Please check your credentials.'',
                      std_context = err, std_fatal = True\<rparr> in
         if auth_userId (cfg_auth config) \<noteq> [] then
           await (deleteActiveConnection (auth_userId (cfg_auth config))) (\<lambda>_. throw e) env h
         else throw e env h)
      else if err_code err = Some ''ETLSNOTCAPABLE'' \<or> err_code err = Some ''ESSLNOTCAPABLE'' then
        throw (Std \<lparr>std_code = ''TLS_ERROR'', std_status = 502, std_operation = operation,
                    std_message = ''The IMAP server does not support secure connections.'',
                    std_context = err, std_fatal = False\<rparr>) env h
      else if message_includes err ''quota'' \<or> message_includes err ''storage'' then
        throw (Std \<lparr>std_code = ''QUOTA_ERROR'', std_status = 507, std_operation = operation,
                    std_message = ''Email storage quota exceeded.'',
                    std_context = err, std_fatal = False\<rparr>) env h
      else if code_startsWith err ''SMTP'' then
        throw (Std \<lparr>std_code = ''SMTP_ERROR'', std_status = 502, std_operation = operation,
                    std_message = ''Email sending failed: '' @ show_str (err_message err),
                    std_context = err, std_fatal = False\<rparr>) env h
      else if message_includes err ''not supported'' \<or> message_includes err ''capability'' then
        throw (Std \<lparr>std_code = ''CAPABILITY_ERROR'', std_status = 501, std_operation = operation,
                    std_message = ''The IMAP server doesn't support required features: ''
                                  @ show_str (err_message err),
                    std_context = err, std_fatal = False\<rparr>) env h
      else
        throw (Std \<lparr>std_code = ''UNKNOWN_IMAP_ERROR'', std_status = 500, std_operation = operation,
                    std_message = ''IMAP operation '' @ operation @ '' failed: ''
                                  @ or_else (err_message err) (err_string err),
                    std_context = err,
                    std_fatal = (in_FatalErrors env (err_code err)
                                 \<or> in_FatalErrors env (err_response_status err))\<rparr>) env h)"

definition withErrorHandler :: "'c manager_config_scheme \<Rightarrow> string \<Rightarrow> 'a prog \<Rightarrow> 'a prog" where
  "withErrorHandler config operation fn =
     try_catch fn (\<lambda>t. handle_error config operation (as_raw t))"

section \<open>The public operations\<close>

text \<open>The first part of \<^verbatim>\<open>id.split(':')\<close>, which always exists.\<close>

definition first_part :: "string \<Rightarrow> string" where
  "first_part s = (case split_on CHR '':'' s of p # _ \<Rightarrow> p | [] \<Rightarrow> [])"

definition second_part :: "string \<Rightarrow> string option" where
  "second_part s = index_or_undefined (split_on CHR '':'' s) 1"

record thread_response =
  tr_messages :: "parsed_message list"
  tr_latest :: parsed_message
  tr_hasUnread :: bool
  tr_totalReplies :: nat
  tr_labels :: "string list"

definition get :: "'c manager_config_scheme \<Rightarrow> string \<Rightarrow> thread_response prog" where
  "get config ident =
     withErrorHandler config ''get''
       (await connectImap (\<lambda>_.
          let mailbox = or_else (Some (first_part ident)) ''INBOX'';
              uid = parseInt10 (second_part ident)
          in await (openMailbox mailbox) (\<lambda>_.
             await (fetchMessages [uid] \<lparr>fo_bodies = [], fo_struct = True, fo_markSeen = Some True\<rparr>)
               (\<lambda>messages.
                  case messages of
                    [] \<Rightarrow> throw (Raw (new_Error ''Message not found''))
                  | m # _ \<Rightarrow>
                      await (parseEmail (msg_raw m)) (\<lambda>parsedEmail.
                      await (ask (\<lambda>env h. convertToAppMessage (base64 env) (date_string env h)
                                             parsedEmail ident mailbox))
                        (\<lambda>parsedMessage.
                           ret \<lparr>tr_messages = [parsedMessage], tr_latest = parsedMessage,
                                tr_hasUnread = pm_unread parsedMessage, tr_totalReplies = 1,
                                tr_labels = []\<rparr>))))))"

datatype page_token = TokString string | TokNumber int

record list_params =
  lp_folder :: string
  lp_query :: "string option"
  lp_maxResults :: "int option"
  lp_labelIds :: "string list option"
  lp_pageToken :: "page_token option"

record thread =
  th_id :: string
  th_raw :: parsed_email

record list_result =
  lr_threads :: "thread list"
  lr_nextPageToken :: "string option"

text \<open>
  \<^verbatim>\<open>list\<close>. \<open>startUid\<close> is computed from the page token as the source computes it; nothing
  reads it afterwards.
\<close>

definition list :: "'c manager_config_scheme \<Rightarrow> list_params \<Rightarrow> list_result prog" where
  "list config params =
     (let maxResults = (case lp_maxResults params of None \<Rightarrow> 100 | Some n \<Rightarrow> n) in
      withErrorHandler config ''list''
        (await connectImap (\<lambda>_.
           let normalizedMailbox = normalizeMailbox (lp_folder params) in
           await (openMailbox normalizedMailbox) (\<lambda>_.
             let startUid = (case lp_pageToken params of
                               Some (TokString t) \<Rightarrow>
                                 if t \<noteq> [] then parseInt10 (Some (first_part t)) else Some 1
                             | _ \<Rightarrow> Some 1);
                 criteria = CritAll # (case lp_query params of
                                         Some q \<Rightarrow> if q \<noteq> [] then [CritSubject q] else []
                                       | None \<Rightarrow> [])
             in await (searchEmails criteria) (\<lambda>uids.
                  let sortedUids = sort_desc uids;
                      paginatedUids = slice0 sortedUids maxResults
                  in await (fetchMessages (map Some paginatedUids)
                              \<lparr>fo_bodies = ''HEADER'', fo_struct = True, fo_markSeen = None\<rparr>)
                       (\<lambda>messages.
                          await (await_all
                                   (\<lambda>m. await (parseEmail (msg_raw m)) (\<lambda>parsed.
                                          ret \<lparr>th_id = normalizedMailbox @ '':'' @ show_int (msg_uid m),
                                               th_raw = parsed\<rparr>))
                                   messages)
                            (\<lambda>parsedMessages.
                               let nextPageToken =
                                     (if int (length sortedUids) > maxResults then
                                        (let lastUid = (if paginatedUids = [] then None
                                                        else Some (last paginatedUids - 1))
                                         in Some (show_jsnum lastUid @ '':'' @ show_int maxResults))
                                      else None)
                               in ret \<lparr>lr_threads = parsedMessages,
                                       lr_nextPageToken = nextPageToken\<rparr>)))))))"

record recipient =
  rc_name :: "string option"
  rc_email :: string

record upload =
  file_name :: string
  file_type :: string
  file_bytes :: string

record outgoing_message =
  om_to :: "recipient list"
  om_cc :: "recipient list option"
  om_bcc :: "recipient list option"
  om_subject :: string
  om_message :: string
  om_attachments :: "upload list option"
  om_headers :: "(string \<times> string) list option"
  om_fromEmail :: "string option"

definition format_recipient :: "recipient \<Rightarrow> string" where
  "format_recipient r =
     (if truthy (rc_name r) then show_str (rc_name r) @ '' <'' @ rc_email r @ ''>'' else rc_email r)"

definition prepareEmail :: "'c manager_config_scheme \<Rightarrow> outgoing_message \<Rightarrow> send_mail_options prog" where
  "prepareEmail config data =
     await (sanitize (om_message data)) (\<lambda>messageContent.
       let toRecipients = map format_recipient (om_to data);
           ccRecipients = map_option (map format_recipient) (om_cc data);
           bccRecipients = map_option (map format_recipient) (om_bcc data);
           attachments =
             map (\<lambda>f. \<lparr>ma_filename = file_name f, ma_content = file_bytes f,
                       ma_contentType = or_else (Some (file_type f)) ''application/octet-stream''\<rparr>)
               (case om_attachments data of Some fs \<Rightarrow> fs | None \<Rightarrow> []);
           emailContent =
             \<lparr>mail_from = or_else (om_fromEmail data) (auth_email (cfg_auth config)),
              mail_to = toRecipients, mail_cc = ccRecipients, mail_bcc = bccRecipients,
              mail_subject = om_subject data, mail_html = messageContent,
              mail_attachments = attachments, mail_headers = None, mail_envelope = None\<rparr>
       in ret (case om_headers data of
                 Some hs \<Rightarrow>
                   if hs \<noteq> [] then emailContent\<lparr>mail_headers := Some (filter (\<lambda>(k, v). v \<noteq> []) hs)\<rparr>
                   else emailContent
               | None \<Rightarrow> emailContent))"

text \<open>
  \<^verbatim>\<open>saveSentEmail\<close>: the body of the \<^verbatim>\<open>try\<close> connects, opens \<^verbatim>\<open>Sent\<close> and calls
  \<^verbatim>\<open>this.smtp.sendMail\<close> with an envelope added; the \<^verbatim>\<open>catch\<close> logs and returns.
\<close>

definition saveSentEmail :: "send_mail_options \<Rightarrow> unit prog" where
  "saveSentEmail mail =
     try_catch
       (await connectImap (\<lambda>_.
        await (openMailbox ''Sent'') (\<lambda>_.
        await (sendMail (mail\<lparr>mail_envelope := Some (mail_from mail, mail_to mail)\<rparr>)) (\<lambda>raw.
        ret ()))))
       (\<lambda>err. ret ())"

definition create :: "'c manager_config_scheme \<Rightarrow> outgoing_message \<Rightarrow> string option prog" where
  "create config data =
     withErrorHandler config ''create''
       (await (prepareEmail config data) (\<lambda>emailContent.
        await (sendMail emailContent) (\<lambda>messageId.
        await (saveSentEmail emailContent) (\<lambda>_.
        ret messageId))))"

text \<open>
  The promise of \<^verbatim>\<open>delete\<close>: \<^verbatim>\<open>imap.move\<close> into \<^verbatim>\<open>Trash\<close>; when its callback gets an error,
  \<^verbatim>\<open>imap.addFlags\<close> with the deleted flag, whose error, if any, rejects the promise.
\<close>

definition move_or_flag :: "jsnum \<Rightarrow> unit prog" where
  "move_or_flag uid env h =
     (let h1 = h @ [ImapMove [uid] ''Trash''] in
      case errback env h1 of
        None \<Rightarrow> (Returned (), h1)
      | Some err \<Rightarrow>
          (let h2 = h1 @ [ImapAddFlags [uid] Deleted_flag] in
           case errback env h2 of
             None \<Rightarrow> (Returned (), h2)
           | Some err2 \<Rightarrow> (Threw (Raw err2), h2)))"

definition delete :: "'c manager_config_scheme \<Rightarrow> string \<Rightarrow> unit prog" where
  "delete config ident =
     withErrorHandler config ''delete''
       (await connectImap (\<lambda>_.
          let mailbox = or_else (Some (first_part ident)) ''INBOX'';
              uid = parseInt10 (second_part ident)
          in await (openMailbox mailbox) (\<lambda>_. move_or_flag uid)))"

definition normalizeIds :: "string list \<Rightarrow> string list" where
  "normalizeIds ids = ids"

record label_options =
  addLabels :: "string list"
  removeLabels :: "string list"

definition modifyLabels :: "'c manager_config_scheme \<Rightarrow> string list \<Rightarrow> label_options \<Rightarrow> unit prog" where
  "modifyLabels config messageIds options =
     withErrorHandler config ''modifyLabels''
       (await connectImap (\<lambda>_.
          for_each messageIds (\<lambda>ident.
            let currentMailbox = first_part ident;
                uid = parseInt10 (second_part ident)
            in case addLabels options of
                 targetFolder # _ \<Rightarrow>
                   await (openMailbox currentMailbox) (\<lambda>_.
                     errback_call (ImapMove [uid] targetFolder))
               | [] \<Rightarrow> ret ())))"

definition markAsRead :: "'c manager_config_scheme \<Rightarrow> string list \<Rightarrow> unit prog" where
  "markAsRead config threadIds =
     withErrorHandler config ''markAsRead''
       (await connectImap (\<lambda>_.
          for_each threadIds (\<lambda>ident.
            let mailbox = first_part ident;
                uid = parseInt10 (second_part ident)
            in await (openMailbox mailbox) (\<lambda>_.
                 errback_call (ImapAddFlags [uid] Seen_flag)))))"

definition markAsUnread :: "'c manager_config_scheme \<Rightarrow> string list \<Rightarrow> unit prog" where
  "markAsUnread config threadIds =
     withErrorHandler config ''markAsUnread''
       (await connectImap (\<lambda>_.
          for_each threadIds (\<lambda>ident.
            let mailbox = first_part ident;
                uid = parseInt10 (second_part ident)
            in await (openMailbox mailbox) (\<lambda>_.
                 errback_call (ImapDelFlags [uid] Seen_flag)))))"

record create_draft_data =
  cd_message :: "string option"
  cd_to :: "string option"
  cd_cc :: "string option"
  cd_bcc :: "string option"
  cd_subject :: "string option"
  cd_attachments :: "upload list option"

record draft_content =
  dr_from :: string
  dr_to :: "string option"
  dr_cc :: "string option"
  dr_bcc :: "string option"
  dr_subject :: "string option"
  dr_html :: string
  dr_attachments :: "mail_attachment list option"

record draft_created =
  dc_id :: "string option"
  dc_success :: "bool option"
  dc_error :: "string option"

text \<open>
  \<^verbatim>\<open>createDraft\<close> builds the draft object, opens \<^verbatim>\<open>Drafts\<close> and returns a generated id; the
  draft object is not used after it is built.
\<close>

definition createDraft :: "'c manager_config_scheme \<Rightarrow> create_draft_data \<Rightarrow> draft_created prog" where
  "createDraft config data =
     withErrorHandler config ''createDraft''
       (await connectImap (\<lambda>_.
        await (sanitize (or_else (cd_message data) [])) (\<lambda>messageContent.
          let draft0 = \<lparr>dr_from = auth_email (cfg_auth config), dr_to = cd_to data,
                         dr_cc = cd_cc data, dr_bcc = cd_bcc data, dr_subject = cd_subject data,
                         dr_html = messageContent, dr_attachments = None\<rparr>;
              draft = (case cd_attachments data of
                         Some fs \<Rightarrow>
                           if fs \<noteq> [] then
                             draft0\<lparr>dr_attachments :=
                               Some (map (\<lambda>f. \<lparr>ma_filename = file_name f, ma_content = file_bytes f,
                                                 ma_contentType = file_type f\<rparr>) fs)\<rparr>
                           else draft0
                       | None \<Rightarrow> draft0)
          in await (openMailbox ''Drafts'') (\<lambda>_.
             await (ask (\<lambda>env h. ''draft-'' @ show_int (date_now env h) @ ''-'' @ random_suffix env h))
               (\<lambda>draftId.
                  ret \<lparr>dc_id = Some draftId, dc_success = Some True, dc_error = None\<rparr>)))))"

record parsed_draft =
  pd_id :: string
  pd_to :: "string option list"
  pd_subject :: string
  pd_content :: string
  pd_rawMessage :: parsed_email

definition getDraft :: "'c manager_config_scheme \<Rightarrow> string \<Rightarrow> parsed_draft prog" where
  "getDraft config ident =
     withErrorHandler config ''getDraft''
       (await connectImap (\<lambda>_.
        await (openMailbox ''Drafts'') (\<lambda>_.
          let uid = parseInt10 (second_part ident) in
          await (fetchMessages [uid] \<lparr>fo_bodies = [], fo_struct = True, fo_markSeen = None\<rparr>)
            (\<lambda>messages.
               case messages of
                 [] \<Rightarrow> throw (Raw (new_Error ''Draft not found''))
               | m # _ \<Rightarrow>
                   await (parseEmail (msg_raw m)) (\<lambda>parsedEmail.
                     ret \<lparr>pd_id = ident,
                          pd_to = (case pe_to parsedEmail of
                                     Some vs \<Rightarrow> map addr_address vs
                                   | None \<Rightarrow> []),
                          pd_subject = or_else (pe_subject parsedEmail) [],
                          pd_content = or_else (or_opt (pe_html parsedEmail)
                                         (or_opt (pe_textAsHtml parsedEmail) (pe_text parsedEmail))) [],
                          pd_rawMessage = parsedEmail\<rparr>)))))"

record drafts_params =
  dp_q :: "string option"
  dp_maxResults :: "int option"
  dp_pageToken :: "string option"

definition listDrafts :: "'c manager_config_scheme \<Rightarrow> drafts_params \<Rightarrow> list_result prog" where
  "listDrafts config params =
     (let maxResults = (case dp_maxResults params of None \<Rightarrow> 100 | Some n \<Rightarrow> n) in
      withErrorHandler config ''listDrafts''
        (await connectImap (\<lambda>_.
         await (openMailbox ''Drafts'') (\<lambda>_.
           let criteria = CritAll # (case dp_q params of
                                       Some q \<Rightarrow> if q \<noteq> [] then [CritSubject q] else []
                                     | None \<Rightarrow> []);
               startUid = (if truthy (dp_pageToken params) then parseInt10 (dp_pageToken params)
                           else Some 1)
           in await (searchEmails criteria) (\<lambda>uids.
                let sortedUids = sort_desc uids;
                    paginatedUids = slice0 sortedUids maxResults
                in await (fetchMessages (map Some paginatedUids)
                            \<lparr>fo_bodies = ''HEADER'', fo_struct = True, fo_markSeen = None\<rparr>)
                     (\<lambda>messages.
                        await (await_all
                                 (\<lambda>m. await (parseEmail (msg_raw m)) (\<lambda>parsed.
                                        ret \<lparr>th_id = ''Drafts:'' @ show_int (msg_uid m),
                                             th_raw = parsed\<rparr>))
                                 messages)
                          (\<lambda>drafts.
                             let nextPageToken =
                                   (if int (length sortedUids) > maxResults then
                                      (let lastUid = (if paginatedUids = [] then None
                                                      else Some (last paginatedUids - 1))
                                       in Some (show_jsnum lastUid))
                                    else None)
                             in ret \<lparr>lr_threads = drafts,
                                     lr_nextPageToken = nextPageToken\<rparr>)))))))"

definition sendDraft :: "'c manager_config_scheme \<Rightarrow> string \<Rightarrow> outgoing_message \<Rightarrow> unit prog" where
  "sendDraft config ident data =
     withErrorHandler config ''sendDraft''
       (await (prepareEmail config data) (\<lambda>emailContent.
        await (sendMail emailContent) (\<lambda>_.
        delete config ident)))"

record folder_count =
  fc_label :: string
  fc_count :: int

text \<open>
  \<^verbatim>\<open>count\<close> opens the six folders and reads the total of the open box after each; a folder
  that cannot be opened counts zero. The total is read at the history of the call that opened
  the folder.
\<close>

definition count :: "'c manager_config_scheme \<Rightarrow> folder_count list prog" where
  "count config =
     withErrorHandler config ''count''
       (await connectImap (\<lambda>_.
          await_all
            (\<lambda>folder.
               try_catch
                 (await (openMailbox folder) (\<lambda>_.
                    ask (\<lambda>env h. case box_total env h of
                                    Some n \<Rightarrow> \<lparr>fc_label = folder, fc_count = n\<rparr>
                                  | None \<Rightarrow> \<lparr>fc_label = folder, fc_count = 0\<rparr>)))
                 (\<lambda>err. ret \<lparr>fc_label = folder, fc_count = 0\<rparr>))
            [''INBOX'', ''Sent'', ''Drafts'', ''Trash'', ''Spam'', ''Archive'']))"

record tokens =
  tk_access_token :: string
  tk_refresh_token :: string
  tk_expiry_date :: int

definition getTokens :: "string \<Rightarrow> tokens prog" where
  "getTokens code =
     ask (\<lambda>env h. \<lparr>tk_access_token = ''imap-direct-access'',
                    tk_refresh_token = ''imap-no-refresh-token'',
                    tk_expiry_date = date_now env h + 365 * 24 * 60 * 60 * 1000\<rparr>)"

record user_info =
  ui_address :: string
  ui_name :: string
  ui_photo :: string

definition getUserInfo :: "'c manager_config_scheme \<Rightarrow> auth option \<Rightarrow> user_info" where
  "getUserInfo config tks =
     \<lparr>ui_address = or_else (map_option auth_email tks) (auth_email (cfg_auth config)),
      ui_name = [], ui_photo = []\<rparr>"

definition getAttachment :: "'c manager_config_scheme \<Rightarrow> string \<Rightarrow> string \<Rightarrow> string option prog" where
  "getAttachment config messageId attachmentId =
     withErrorHandler config ''getAttachment''
       (let mailbox = first_part messageId;
            uid = parseInt10 (second_part messageId)
        in await connectImap (\<lambda>_.
           await (openMailbox mailbox) (\<lambda>_.
           await (fetchMessages [uid] \<lparr>fo_bodies = [], fo_struct = True, fo_markSeen = None\<rparr>)
             (\<lambda>messages.
                case messages of
                  [] \<Rightarrow> throw (Raw (new_Error ''Message not found''))
                | m # _ \<Rightarrow>
                    await (parseEmail (msg_raw m)) (\<lambda>parsedEmail.
                      case pe_attachments parsedEmail of
                        None \<Rightarrow> throw (Raw (type_error
                                   ''Cannot read properties of undefined (reading find)''))
                      | Some atts \<Rightarrow>
                          (case List.find (\<lambda>att. att_contentId att = Some attachmentId
                                                  \<or> att_filename att = Some attachmentId) atts of
                             None \<Rightarrow> ret None
                           | Some att \<Rightarrow>
                               await (ask (\<lambda>env h. base64 env (att_content att)))
                                 (\<lambda>b. ret (Some b))))))))"

record label =
  lb_id :: string
  lb_name :: string
  lb_type :: string

fun extractBoxes :: "string \<Rightarrow> (string \<times> box) list \<Rightarrow> string list" where
  "extractBoxes pre [] = []"
| "extractBoxes pre ((name, Box children) # rest) =
     (let fullName = (if pre \<noteq> [] then pre @ name else name)
      in fullName
         # (case children of
              Some cs \<Rightarrow> extractBoxes (fullName @ ''/'') cs
            | None \<Rightarrow> [])
         @ extractBoxes pre rest)"

definition getBoxes :: "(string \<times> box) list prog" where
  "getBoxes env h =
     (let h' = h @ [ImapGetBoxes] in
      case getBoxes_result env h' of
        Inl err \<Rightarrow> (Threw (Raw err), h')
      | Inr boxes \<Rightarrow> (Returned boxes, h'))"

definition getUserLabels :: "'c manager_config_scheme \<Rightarrow> label list prog" where
  "getUserLabels config =
     withErrorHandler config ''getUserLabels''
       (await connectImap (\<lambda>_.
        await getBoxes (\<lambda>boxes.
          let mailboxes = extractBoxes [] boxes in
          ret (map (\<lambda>name. \<lparr>lb_id = name, lb_name = name, lb_type = ''folder''\<rparr>) mailboxes))))"

definition getLabel :: "string \<Rightarrow> label" where
  "getLabel ident = \<lparr>lb_id = ident, lb_name = ident, lb_type = ''folder''\<rparr>"

record label_input =
  li_name :: string
  li_color :: "(string \<times> string) option"

definition createLabel :: "'c manager_config_scheme \<Rightarrow> label_input \<Rightarrow> unit prog" where
  "createLabel config lbl =
     withErrorHandler config ''createLabel''
       (await connectImap (\<lambda>_. errback_call (ImapAddBox (li_name lbl))))"

definition updateLabel :: "'c manager_config_scheme \<Rightarrow> string \<Rightarrow> label_input \<Rightarrow> unit prog" where
  "updateLabel config ident lbl =
     withErrorHandler config ''updateLabel''
       (await connectImap (\<lambda>_.
          if ident \<noteq> li_name lbl then errback_call (ImapRenameBox ident (li_name lbl))
          else ret ()))"

definition deleteLabel :: "'c manager_config_scheme \<Rightarrow> string \<Rightarrow> unit prog" where
  "deleteLabel config ident =
     withErrorHandler config ''deleteLabel''
       (await connectImap (\<lambda>_. errback_call (ImapDelBox ident)))"

definition getEmailAliases :: "'c manager_config_scheme \<Rightarrow> (string \<times> bool) list" where
  "getEmailAliases config = [(auth_email (cfg_auth config), True)]"

definition revokeRefreshToken :: "string \<Rightarrow> bool" where
  "revokeRefreshToken tok = True"

definition getScope :: string where
  "getScope = ''imap smtp''"

section \<open>The operations of the \<^verbatim>\<open>MailManager\<close> interface, and the calls they make\<close>

datatype operation =
    OpGet string
  | OpList list_params
  | OpCreate outgoing_message
  | OpDelete string
  | OpNormalizeIds "string list"
  | OpModifyLabels "string list" label_options
  | OpMarkAsRead "string list"
  | OpMarkAsUnread "string list"
  | OpCreateDraft create_draft_data
  | OpGetDraft string
  | OpListDrafts drafts_params
  | OpSendDraft string outgoing_message
  | OpCount
  | OpGetTokens string
  | OpGetUserInfo "auth option"
  | OpGetAttachment string string
  | OpGetUserLabels
  | OpGetLabel string
  | OpCreateLabel label_input
  | OpUpdateLabel string label_input
  | OpDeleteLabel string
  | OpGetEmailAliases
  | OpRevokeRefreshToken string
  | OpGetScope

text \<open>
  The history after an operation has run. The operations that only compute a value from
  their arguments and the configuration leave it as it is.
\<close>

fun history_after :: "'c manager_config_scheme \<Rightarrow> operation \<Rightarrow> env \<Rightarrow> history \<Rightarrow> history" where
  "history_after config (OpGet ident) env h = snd (get config ident env h)"
| "history_after config (OpList params) env h = snd (list config params env h)"
| "history_after config (OpCreate data) env h = snd (create config data env h)"
| "history_after config (OpDelete ident) env h = snd (delete config ident env h)"
| "history_after config (OpNormalizeIds ids) env h = h"
| "history_after config (OpModifyLabels ids options) env h = snd (modifyLabels config ids options env h)"
| "history_after config (OpMarkAsRead ids) env h = snd (markAsRead config ids env h)"
| "history_after config (OpMarkAsUnread ids) env h = snd (markAsUnread config ids env h)"
| "history_after config (OpCreateDraft data) env h = snd (createDraft config data env h)"
| "history_after config (OpGetDraft ident) env h = snd (getDraft config ident env h)"
| "history_after config (OpListDrafts params) env h = snd (listDrafts config params env h)"
| "history_after config (OpSendDraft ident data) env h = snd (sendDraft config ident data env h)"
| "history_after config OpCount env h = snd (count config env h)"
| "history_after config (OpGetTokens c) env h = snd (getTokens c env h)"
| "history_after config (OpGetUserInfo tks) env h = h"
| "history_after config (OpGetAttachment messageId attachmentId) env h =
     snd (getAttachment config messageId attachmentId env h)"
| "history_after config OpGetUserLabels env h = snd (getUserLabels config env h)"
| "history_after config (OpGetLabel ident) env h = h"
| "history_after config (OpCreateLabel lbl) env h = snd (createLabel config lbl env h)"
| "history_after config (OpUpdateLabel ident lbl) env h = snd (updateLabel config ident lbl env h)"
| "history_after config (OpDeleteLabel ident) env h = snd (deleteLabel config ident env h)"
| "history_after config OpGetEmailAliases env h = h"
| "history_after config (OpRevokeRefreshToken tok) env h = h"
| "history_after config OpGetScope env h = h"

text \<open>The three calls of \<^verbatim>\<open>connectImap\<close>.\<close>

definition connect_calls :: "call list" where
  "connect_calls = [ImapOnce ''ready'', ImapOnce ''error'', ImapConnect]"

text \<open>IMAP work: every command sent over the IMAP session.\<close>

fun imap_work :: "call \<Rightarrow> bool" where
  "imap_work (ImapOnce _) = False"
| "imap_work ImapConnect = False"
| "imap_work (SmtpSendMail _) = False"
| "imap_work (DeleteActiveConnection _) = False"
| "imap_work _ = True"

text \<open>In a list of calls, no IMAP work comes before the first \<^verbatim>\<open>imap.connect()\<close>.\<close>

definition connect_before_work :: "call list \<Rightarrow> bool" where
  "connect_before_work cs = list_all (\<lambda>c. \<not> imap_work c) (takeWhile (\<lambda>c. c \<noteq> ImapConnect) cs)"

section \<open>Example environments\<close>

text \<open>
  Environments for the concrete runs below. In \<open>calm_env\<close> every call succeeds and the
  mailbox is empty. \<open>mailbox_env\<close> serves a mailbox given as the list of its messages in
  sequence order, each with its UID and its raw text: a search returns all UIDs, and a
  fetch emits one event for every message whose UID was asked for, with the position of the
  message in the mailbox as its sequence number.
\<close>

definition blank_email :: parsed_email where
  "blank_email =
     \<lparr>pe_from = None, pe_to = None, pe_cc = None, pe_messageId = None, pe_subject = None,
      pe_html = None, pe_textAsHtml = None, pe_text = None, pe_references = None,
      pe_inReplyTo = None, pe_flags = None, pe_date = None, pe_attachments = None\<rparr>"

definition calm_env :: env where
  "calm_env =
     \<lparr>FatalErrors = [''invalid_grant'', ''invalid_credentials''],
      connect_emits = (\<lambda>h. EvReady),
      errback = (\<lambda>h. None),
      search_result = (\<lambda>h. Inr []),
      fetch_emits = (\<lambda>h. ([], None)),
      getBoxes_result = (\<lambda>h. Inr []),
      box_total = (\<lambda>h. None),
      sendMail_result = (\<lambda>h. Inr (Some ''<1@example.com>'')),
      deleteActiveConnection_result = (\<lambda>h. None),
      simpleParser = (\<lambda>raw. Inr (blank_email\<lparr>pe_subject := Some raw\<rparr>)),
      sanitizeTipTapHtml = (\<lambda>html. Inr html),
      base64 = (\<lambda>bytes. bytes),
      date_now = (\<lambda>h. 0),
      date_string = (\<lambda>h. ''Thu Jan 01 1970''),
      random_suffix = (\<lambda>h. ''abcdefghi'')\<rparr>"

definition mailbox_events :: "(int \<times> string) list \<Rightarrow> history \<Rightarrow> fetch_event list \<times> raw_error option" where
  "mailbox_events mb h =
     (case rev h of
        ImapFetch uids _ # _ \<Rightarrow>
          (map (\<lambda>(i, u, r). \<lparr>ev_seqno = int i, ev_uid = u, ev_chunks = [r]\<rparr>)
             (filter (\<lambda>(i, u, r). Some u \<in> set uids) (enumerate 1 mb)), None)
      | _ \<Rightarrow> ([], None))"

definition mailbox_env :: "(int \<times> string) list \<Rightarrow> env" where
  "mailbox_env mb =
     calm_env\<lparr>search_result := (\<lambda>h. Inr (map fst mb)), fetch_emits := mailbox_events mb\<rparr>"

text \<open>The mailbox of the specification's example: UIDs 1, 3, 5 and 9.\<close>

definition example_mailbox :: "(int \<times> string) list" where
  "example_mailbox = [(1, ''a''), (3, ''b''), (5, ''c''), (9, ''d'')]"

text \<open>An error callback that fails on the calls that satisfy \<open>P\<close>.\<close>

definition failing_on :: "(call \<Rightarrow> bool) \<Rightarrow> raw_error \<Rightarrow> history \<Rightarrow> raw_error option" where
  "failing_on P err h = (case rev h of c # _ \<Rightarrow> if P c then Some err else None | [] \<Rightarrow> None)"



fun is_openBox :: "call \<Rightarrow> bool" where
  "is_openBox (ImapOpenBox _) = True"
| "is_openBox _ = False"

definition example_auth :: auth where
  "example_auth =
     \<lparr>auth_userId = ''test-user'', auth_accessToken = ''test-password'',
      auth_refreshToken = [], auth_email = ''test@example.com''\<rparr>"

definition example_config :: manager_config where
  "example_config = \<lparr>cfg_auth = example_auth\<rparr>"

section \<open>The connection route (\<^verbatim>\<open>trpc/routes/connections/imap.ts\<close>)\<close>

text \<open>
  The input of \<^verbatim>\<open>imapRouter.connect\<close> (\<^verbatim>\<open>imapLoginSchema\<close>): the email, the password and the
  optional server settings of the connection form.
\<close>

record imap_login =
  il_email :: string
  il_password :: string
  il_imapServer :: "string option"
  il_smtpServer :: "string option"
  il_imapPort :: "nat option"
  il_smtpPort :: "nat option"

text \<open>\<^verbatim>\<open>input.imapPort || 993\<close>: zero and \<^verbatim>\<open>undefined\<close> are falsy.\<close>

definition port_or :: "nat option \<Rightarrow> nat \<Rightarrow> nat" where
  "port_or p d = (case p of None \<Rightarrow> d | Some n \<Rightarrow> if n = 0 then d else n)"

text \<open>
  The servers and ports the route connects to for its own test of the credentials and
  stores in the connection record: the explicit setting when there is one, and
  \<^verbatim>\<open>imap.${input.email.split('@')[1]}\<close> (or \<^verbatim>\<open>smtp.\<close>), 993 and 465 otherwise.
\<close>

record connection_servers =
  cs_imapServer :: string
  cs_smtpServer :: string
  cs_imapPort :: nat
  cs_smtpPort :: nat

definition route_servers :: "imap_login \<Rightarrow> connection_servers" where
  "route_servers input =
     (let domain = show_str (index_or_undefined (split_on CHR ''@'' (il_email input)) 1) in
      \<lparr>cs_imapServer = or_else (il_imapServer input) (''imap.'' @ domain),
       cs_smtpServer = or_else (il_smtpServer input) (''smtp.'' @ domain),
       cs_imapPort = port_or (il_imapPort input) 993,
       cs_smtpPort = port_or (il_smtpPort input) 465\<rparr>)"

text \<open>
  The configuration the route hands to \<^verbatim>\<open>createDriver('imap', ...)\<close> for the user \<open>uid\<close>: the
  \<^verbatim>\<open>auth\<close> object only.
\<close>

definition route_driver_config :: "string \<Rightarrow> imap_login \<Rightarrow> manager_config" where
  "route_driver_config uid input =
     \<lparr>cfg_auth = \<lparr>auth_userId = uid, auth_accessToken = il_password input,
                  auth_refreshToken = [], auth_email = il_email input\<rparr>\<rparr>"

definition custom_login :: imap_login where
  "custom_login =
     \<lparr>il_email = ''user@custom.com'', il_password = ''secret'',
      il_imapServer = Some ''mail.custom.com'', il_smtpServer = Some ''mail.custom.com'',
      il_imapPort = Some 143, il_smtpPort = Some 587\<rparr>"


section \<open>Example errors and messages\<close>

text \<open>The codes of the signatures that come before the message tests in the handler.\<close>

definition earlier_codes :: "string list" where
  "earlier_codes = [''ECONNREFUSED'', ''ETIMEDOUT'', ''ENOTFOUND'', ''AUTHENTICATIONFAILED'',
     ''INVALIDCREDENTIALS'', ''ETLSNOTCAPABLE'', ''ESSLNOTCAPABLE'']"

text \<open>
  Errors as the libraries and the store throw them: the two of the driver's test (a refused
  connection, a failed authentication), a quota message, a failure of the connection store,
  an error whose \<^verbatim>\<open>response.status\<close> is in \<^verbatim>\<open>FatalErrors\<close>, and a broken pipe.
\<close>

definition refused_error :: raw_error where
  "refused_error = \<lparr>err_code = Some ''ECONNREFUSED'', err_message = Some ''Connection refused'',
     err_response_status = None, err_string = ''[object Object]''\<rparr>"

definition auth_failed_error :: raw_error where
  "auth_failed_error = \<lparr>err_code = Some ''AUTHENTICATIONFAILED'', err_message = Some ''Invalid credentials'',
     err_response_status = None, err_string = ''[object Object]''\<rparr>"

definition quota_error :: raw_error where
  "quota_error = \<lparr>err_code = None, err_message = Some ''quota exceeded'',
     err_response_status = None, err_string = ''Error: quota exceeded''\<rparr>"

definition store_error :: raw_error where
  "store_error = \<lparr>err_code = None, err_message = Some ''database unavailable'',
     err_response_status = None, err_string = ''Error: database unavailable''\<rparr>"


definition pipe_error :: raw_error where
  "pipe_error = \<lparr>err_code = Some ''EPIPE'', err_message = Some ''broken pipe'',
     err_response_status = None, err_string = ''Error: broken pipe''\<rparr>"


text \<open>The calls of \<^verbatim>\<open>smtp.sendMail\<close>.\<close>

fun is_sendMail :: "call \<Rightarrow> bool" where
  "is_sendMail (SmtpSendMail _) = True"
| "is_sendMail _ = False"

text \<open>An outgoing message, and the mail \<^verbatim>\<open>prepareEmail\<close> makes of it for the example configuration.\<close>

definition example_outgoing :: outgoing_message where
  "example_outgoing =
     \<lparr>om_to = [\<lparr>rc_name = Some ''Ann'', rc_email = ''ann@example.com''\<rparr>],
      om_cc = None, om_bcc = None, om_subject = ''Hi'', om_message = ''Hello'',
      om_attachments = None, om_headers = None, om_fromEmail = None\<rparr>"

definition example_mail :: send_mail_options where
  "example_mail =
     \<lparr>mail_from = ''test@example.com'', mail_to = [''Ann <ann@example.com>''],
      mail_cc = None, mail_bcc = None, mail_subject = ''Hi'', mail_html = ''Hello'',
      mail_attachments = [], mail_headers = None, mail_envelope = None\<rparr>"


section \<open>Definitions used to state the results\<close>

text \<open>The search criteria of \<^verbatim>\<open>list\<close> and \<^verbatim>\<open>listDrafts\<close> for a query, and the fetch options of
  the listings and of \<^verbatim>\<open>get\<close>.\<close>

definition list_criteria :: "string option \<Rightarrow> criterion list" where
  "list_criteria q = CritAll # (case q of Some s \<Rightarrow> if s \<noteq> [] then [CritSubject s] else [] | None \<Rightarrow> [])"

definition header_options :: fetch_options where
  "header_options = \<lparr>fo_bodies = ''HEADER'', fo_struct = True, fo_markSeen = None\<rparr>"

text \<open>
  The example of the specification: the mailbox with UIDs 1, 3, 5 and 9, listed two at a
  time. The page shown is what \<^verbatim>\<open>list\<close> returns for it, and \<open>example_list_calls\<close> are the
  calls it makes.
\<close>

definition example_params :: "page_token option \<Rightarrow> list_params" where
  "example_params tok =
     \<lparr>lp_folder = ''INBOX'', lp_query = None, lp_maxResults = Some 2, lp_labelIds = None,
      lp_pageToken = tok\<rparr>"

definition example_page :: list_result where
  "example_page =
     \<lparr>lr_threads = [\<lparr>th_id = ''INBOX:3'', th_raw = blank_email\<lparr>pe_subject := Some ''c''\<rparr>\<rparr>,
                     \<lparr>th_id = ''INBOX:4'', th_raw = blank_email\<lparr>pe_subject := Some ''d''\<rparr>\<rparr>],
      lr_nextPageToken = Some ''4:2''\<rparr>"

definition example_list_calls :: "call list" where
  "example_list_calls =
     [ImapOnce ''ready'', ImapOnce ''error'', ImapConnect, ImapOpenBox ''INBOX'', ImapSearch [CritAll],
      ImapFetch [Some 9, Some 5] header_options]"

text \<open>The fetch options of \<^verbatim>\<open>get\<close>.\<close>

definition full_options :: fetch_options where
  "full_options = \<lparr>fo_bodies = [], fo_struct = True, fo_markSeen = Some True\<rparr>"

text \<open>
  A server that answers a fetch only with messages whose UID was asked for, as IMAP's UID
  FETCH does.
\<close>

definition serves_by_uid :: "env \<Rightarrow> bool" where
  "serves_by_uid env =
     (\<forall>h uids opts. \<forall>ev \<in> set (fst (fetch_emits env (h @ [ImapFetch uids opts]))).
        Some (ev_uid ev) \<in> set uids)"

text \<open>The same mailbox listed as drafts, and the event of the message with UID 5.\<close>

definition example_drafts_params :: drafts_params where
  "example_drafts_params = \<lparr>dp_q = None, dp_maxResults = Some 2, dp_pageToken = None\<rparr>"

definition example_drafts_calls :: "call list" where
  "example_drafts_calls =
     [ImapOnce ''ready'', ImapOnce ''error'', ImapConnect, ImapOpenBox ''Drafts'', ImapSearch [CritAll],
      ImapFetch [Some 9, Some 5] header_options]"

definition example_drafts_page :: list_result where
  "example_drafts_page =
     \<lparr>lr_threads = [\<lparr>th_id = ''Drafts:3'', th_raw = blank_email\<lparr>pe_subject := Some ''c''\<rparr>\<rparr>,
                     \<lparr>th_id = ''Drafts:4'', th_raw = blank_email\<lparr>pe_subject := Some ''d''\<rparr>\<rparr>],
      lr_nextPageToken = Some ''4''\<rparr>"

definition listed_event :: fetch_event where
  "listed_event = \<lparr>ev_seqno = 3, ev_uid = 5, ev_chunks = [''c'']\<rparr>"

text \<open>A program only adds calls to the history.\<close>

definition extends :: "'a prog \<Rightarrow> bool" where
  "extends p = (\<forall>env h. \<exists>rest. snd (p env h) = h @ rest)"

text \<open>A program adds neither IMAP work nor a connect.\<close>

definition quiet :: "'a prog \<Rightarrow> bool" where
  "quiet p = (\<forall>env h. \<exists>rest. snd (p env h) = h @ rest
                \<and> list_all (\<lambda>c. \<not> imap_work c \<and> c \<noteq> ImapConnect) rest)"

text \<open>The calls a program adds begin with those of \<^verbatim>\<open>connectImap\<close>.\<close>

definition starts_with_connect :: "'a prog \<Rightarrow> bool" where
  "starts_with_connect p = (\<forall>env h. \<exists>rest. snd (p env h) = h @ connect_calls @ rest)"

text \<open>Among the calls a program adds, no IMAP work comes before the first connect.\<close>

definition connects_first :: "'a prog \<Rightarrow> bool" where
  "connects_first p = (\<forall>env h. \<exists>calls. snd (p env h) = h @ calls \<and> connect_before_work calls)"

text \<open>
  A client that emits \<^verbatim>\<open>ready\<close> after the first \<^verbatim>\<open>connect()\<close> of a history and stays silent
  after a repeated one.
\<close>

definition once_ready :: "history \<Rightarrow> conn_event" where
  "once_ready h = (if length (filter (\<lambda>c. c = ImapConnect) h) = 1 then EvReady else EvNone)"


section \<open>The error handler\<close>

text \<open>What the handler throws, branch by branch, when the conditions of the \<^verbatim>\<open>if\<close> chain are known.\<close>

lemma withErrorHandler_threw:
  "fn env h = (Threw t, h') \<Longrightarrow>
   withErrorHandler config operation fn env h = handle_error config operation (as_raw t) env h'"
  by (simp add: withErrorHandler_def try_catch_def)

lemma as_raw_Raw: "as_raw (Raw e) = e"
  by (simp add: as_raw_def)

lemma handle_conn:
  assumes "err_code err = Some ''ECONNREFUSED'' \<or> err_code err = Some ''ETIMEDOUT''
         \<or> err_code err = Some ''ENOTFOUND''"
  shows "handle_error config operation err env h =
     (Threw (Std \<lparr>std_code = ''CONNECTION_REFUSED'', std_status = 503, std_operation = operation,
                      std_message = ''Connection to IMAP server failed: '' @ show_str (err_message err),
                      std_context = err, std_fatal = True\<rparr>), h)"
  unfolding handle_error_def throw_def using assms by (simp only: if_True)

lemma handle_auth:
  assumes "\<not> (err_code err = Some ''ECONNREFUSED'' \<or> err_code err = Some ''ETIMEDOUT''
         \<or> err_code err = Some ''ENOTFOUND'')"
    and "err_code err = Some ''AUTHENTICATIONFAILED'' \<or> err_code err = Some ''INVALIDCREDENTIALS''"
  shows "handle_error config operation err env h =
     (let e = Std \<lparr>std_code = ''AUTHENTICATION_ERROR'', std_status = 401, std_operation = operation,
                      std_message = ''IMAP authentication failed. Please check your credentials.'',
                      std_context = err, std_fatal = True\<rparr> in
         if auth_userId (cfg_auth config) \<noteq> [] then
           await (deleteActiveConnection (auth_userId (cfg_auth config))) (\<lambda>_. throw e) env h
         else throw e env h)"
  unfolding handle_error_def using assms by (simp only: if_True if_False)

lemma handle_quota:
  assumes "\<not> (err_code err = Some ''ECONNREFUSED'' \<or> err_code err = Some ''ETIMEDOUT''
         \<or> err_code err = Some ''ENOTFOUND'')"
    and "\<not> (err_code err = Some ''AUTHENTICATIONFAILED'' \<or> err_code err = Some ''INVALIDCREDENTIALS'')"
    and "\<not> (err_code err = Some ''ETLSNOTCAPABLE'' \<or> err_code err = Some ''ESSLNOTCAPABLE'')"
    and "message_includes err ''quota'' \<or> message_includes err ''storage''"
  shows "handle_error config operation err env h =
     (Threw (Std \<lparr>std_code = ''QUOTA_ERROR'', std_status = 507, std_operation = operation,
                    std_message = ''Email storage quota exceeded.'',
                    std_context = err, std_fatal = False\<rparr>), h)"
  unfolding handle_error_def throw_def using assms by (simp only: if_True if_False)


text \<open>The handler always throws: it never returns a value and never stays pending.\<close>

lemma handle_error_throws:
  "\<exists>t h'. handle_error config operation err env h = (Threw t, h')"
  unfolding handle_error_def throw_def await_def deleteActiveConnection_def Let_def
  by (simp split: option.split)

lemma includes_quota_exceeded:
  "message_includes err ''quota exceeded'' \<Longrightarrow> message_includes err ''quota''"
proof -
  assume a: "message_includes err ''quota exceeded''"
  then obtain m where m: "err_message err = Some m" and s: "sublist ''quota exceeded'' m"
    by (auto simp: message_includes_def str_includes_def split: option.splits)
  from s obtain ps ss where "m = ps @ ''quota exceeded'' @ ss" by (auto simp: sublist_def)
  then have "m = ps @ ''quota'' @ ('' exceeded'' @ ss)" by simp
  then have "sublist ''quota'' m" unfolding sublist_def by blast
  with m show ?thesis by (simp add: message_includes_def str_includes_def)
qed

lemma handle_error_not_returned [simp]:
  "(handle_error config operation err env h :: 'a outcome \<times> history) \<noteq> (Returned x, h')"
  "(handle_error config operation err env h :: 'a outcome \<times> history) \<noteq> (Pending, h')"
proof -
  obtain t h'' where e: "(handle_error config operation err env h :: 'a outcome \<times> history) = (Threw t, h'')"
    using handle_error_throws by blast
  show "(handle_error config operation err env h :: 'a outcome \<times> history) \<noteq> (Returned x, h')"
    and "(handle_error config operation err env h :: 'a outcome \<times> history) \<noteq> (Pending, h')"
    using e by simp_all
qed

lemma handle_error_not_returned_sym [simp]:
  "(Returned x, h') \<noteq> (handle_error config operation err env h :: 'a outcome \<times> history)"
  "(Pending, h') \<noteq> (handle_error config operation err env h :: 'a outcome \<times> history)"
  using handle_error_not_returned [of config operation err env h] by (metis, metis)



lemma calm_env_simps:
  "connect_emits calm_env = (\<lambda>h. EvReady)"
  "errback calm_env = (\<lambda>h. None)"
  "FatalErrors calm_env = [''invalid_grant'', ''invalid_credentials'']"
  "sendMail_result calm_env = (\<lambda>h. Inr (Some ''<1@example.com>''))"
  "sanitizeTipTapHtml calm_env = (\<lambda>html. Inr html)"
  "search_result calm_env = (\<lambda>h. Inr [])"
  "fetch_emits calm_env = (\<lambda>h. ([], None))"
  "deleteActiveConnection_result calm_env = (\<lambda>h. None)"
  by (simp_all add: calm_env_def)

lemma connectImap_eq:
  "connectImap env h =
     (case connect_emits env (h @ connect_calls) of
        EvReady \<Rightarrow> (Returned (), h @ connect_calls)
      | EvError err \<Rightarrow> (Threw (Raw err), h @ connect_calls)
      | EvNone \<Rightarrow> (Pending, h @ connect_calls))"
  by (simp add: connectImap_def connect_calls_def Let_def split: conn_event.split)


section \<open>Classification of errors (claims C3 and C4)\<close>

lemma in_earlier_codes:
  "''ECONNREFUSED'' \<in> set earlier_codes" "''ETIMEDOUT'' \<in> set earlier_codes"
  "''ENOTFOUND'' \<in> set earlier_codes" "''AUTHENTICATIONFAILED'' \<in> set earlier_codes"
  "''INVALIDCREDENTIALS'' \<in> set earlier_codes" "''ETLSNOTCAPABLE'' \<in> set earlier_codes"
  "''ESSLNOTCAPABLE'' \<in> set earlier_codes"
  by (simp_all add: earlier_codes_def)

lemma code_not_earlier:
  assumes "\<forall>c. err_code err = Some c \<longrightarrow> c \<notin> set earlier_codes"
  shows "\<not> (err_code err = Some ''ECONNREFUSED'' \<or> err_code err = Some ''ETIMEDOUT''
         \<or> err_code err = Some ''ENOTFOUND'')"
    and "\<not> (err_code err = Some ''AUTHENTICATIONFAILED'' \<or> err_code err = Some ''INVALIDCREDENTIALS'')"
    and "\<not> (err_code err = Some ''ETLSNOTCAPABLE'' \<or> err_code err = Some ''ESSLNOTCAPABLE'')"
  using assms in_earlier_codes by blast+

text \<open>
  Claim C3, as amended. When the wrapped operation throws a raw error, the handler throws:
  for code \<^verbatim>\<open>ECONNREFUSED\<close>, the kind \<^verbatim>\<open>CONNECTION_REFUSED\<close> with status 503 and fatal;
  for code \<^verbatim>\<open>AUTHENTICATIONFAILED\<close>, the kind \<^verbatim>\<open>AUTHENTICATION_ERROR\<close> with status 401 and
  fatal, after calling \<^verbatim>\<open>deleteActiveConnection\<close> with the configured user id when that id
  is not empty (with an empty id nothing is deleted, and when the deletion itself rejects,
  its error is what leaves the handler);
  for a message containing \<^verbatim>\<open>quota exceeded\<close> and a code that is none of the seven codes
  tested earlier, the kind \<^verbatim>\<open>QUOTA_ERROR\<close> with status 507 and not fatal.
\<close>

theorem error_classifier_signatures:
  assumes "fn env h = (Threw (Raw err), h')"
  shows
   "(err_code err = Some ''ECONNREFUSED'' \<longrightarrow>
       withErrorHandler config operation fn env h =
         (Threw (Std \<lparr>std_code = ''CONNECTION_REFUSED'', std_status = 503, std_operation = operation,
                      std_message = ''Connection to IMAP server failed: '' @ show_str (err_message err),
                      std_context = err, std_fatal = True\<rparr>), h'))
    \<and> (err_code err = Some ''AUTHENTICATIONFAILED'' \<longrightarrow>
         (let e = \<lparr>std_code = ''AUTHENTICATION_ERROR'', std_status = 401, std_operation = operation,
                   std_message = ''IMAP authentication failed. Please check your credentials.'',
                   std_context = err, std_fatal = True\<rparr>;
              uid = auth_userId (cfg_auth config);
              hd = h' @ [DeleteActiveConnection uid]
          in withErrorHandler config operation fn env h =
               (if uid = [] then (Threw (Std e), h')
                else case deleteActiveConnection_result env hd of
                       None \<Rightarrow> (Threw (Std e), hd)
                     | Some err2 \<Rightarrow> (Threw (Raw err2), hd))))
    \<and> (message_includes err ''quota exceeded''
         \<and> (\<forall>c. err_code err = Some c \<longrightarrow> c \<notin> set earlier_codes) \<longrightarrow>
       withErrorHandler config operation fn env h =
         (Threw (Std \<lparr>std_code = ''QUOTA_ERROR'', std_status = 507, std_operation = operation,
                      std_message = ''Email storage quota exceeded.'',
                      std_context = err, std_fatal = False\<rparr>), h'))"
proof -
  have w: "withErrorHandler config operation fn env h = handle_error config operation err env h'"
    using assms by (simp add: withErrorHandler_threw as_raw_Raw)
  have c1: "err_code err = Some ''ECONNREFUSED'' \<Longrightarrow>
       handle_error config operation err env h' =
         (Threw (Std \<lparr>std_code = ''CONNECTION_REFUSED'', std_status = 503, std_operation = operation,
                      std_message = ''Connection to IMAP server failed: '' @ show_str (err_message err),
                      std_context = err, std_fatal = True\<rparr>), h')"
    by (rule handle_conn) simp
  have c2: "err_code err = Some ''AUTHENTICATIONFAILED'' \<Longrightarrow>
       handle_error config operation err env h' =
         (let e = \<lparr>std_code = ''AUTHENTICATION_ERROR'', std_status = 401, std_operation = operation,
                   std_message = ''IMAP authentication failed. Please check your credentials.'',
                   std_context = err, std_fatal = True\<rparr>;
              uid = auth_userId (cfg_auth config);
              hd = h' @ [DeleteActiveConnection uid]
          in (if uid = [] then (Threw (Std e), h')
                else case deleteActiveConnection_result env hd of
                       None \<Rightarrow> (Threw (Std e), hd)
                     | Some err2 \<Rightarrow> (Threw (Raw err2), hd)))"
  proof -
    assume a: "err_code err = Some ''AUTHENTICATIONFAILED''"
    have n: "\<not> (err_code err = Some ''ECONNREFUSED'' \<or> err_code err = Some ''ETIMEDOUT''
         \<or> err_code err = Some ''ENOTFOUND'')" using a by simp
    have y: "err_code err = Some ''AUTHENTICATIONFAILED'' \<or> err_code err = Some ''INVALIDCREDENTIALS''"
      using a by simp
    show ?thesis
      unfolding handle_auth [OF n y]
      by (simp add: Let_def await_def deleteActiveConnection_def throw_def split: option.split)
  qed
  have c3: "message_includes err ''quota exceeded''
         \<and> (\<forall>c. err_code err = Some c \<longrightarrow> c \<notin> set earlier_codes) \<Longrightarrow>
       handle_error config operation err env h' =
         (Threw (Std \<lparr>std_code = ''QUOTA_ERROR'', std_status = 507, std_operation = operation,
                      std_message = ''Email storage quota exceeded.'',
                      std_context = err, std_fatal = False\<rparr>), h')"
  proof -
    assume a: "message_includes err ''quota exceeded''
         \<and> (\<forall>c. err_code err = Some c \<longrightarrow> c \<notin> set earlier_codes)"
    then have q: "message_includes err ''quota'' \<or> message_includes err ''storage''"
      by (simp add: includes_quota_exceeded)
    from a have e: "\<forall>c. err_code err = Some c \<longrightarrow> c \<notin> set earlier_codes" by simp
    show ?thesis
      by (rule handle_quota [OF code_not_earlier(1) [OF e] code_not_earlier(2) [OF e]
            code_not_earlier(3) [OF e] q])
  qed
  show ?thesis
    unfolding w
  proof (intro conjI impI)
    assume "err_code err = Some ''ECONNREFUSED''"
    then show "handle_error config operation err env h' =
         (Threw (Std \<lparr>std_code = ''CONNECTION_REFUSED'', std_status = 503, std_operation = operation,
                      std_message = ''Connection to IMAP server failed: '' @ show_str (err_message err),
                      std_context = err, std_fatal = True\<rparr>), h')"
      by (rule c1)
  next
    assume a: "err_code err = Some ''AUTHENTICATIONFAILED''"
    show "(let e = \<lparr>std_code = ''AUTHENTICATION_ERROR'', std_status = 401, std_operation = operation,
                   std_message = ''IMAP authentication failed. Please check your credentials.'',
                   std_context = err, std_fatal = True\<rparr>;
              uid = auth_userId (cfg_auth config);
              hd = h' @ [DeleteActiveConnection uid]
          in handle_error config operation err env h' =
               (if uid = [] then (Threw (Std e), h')
                else case deleteActiveConnection_result env hd of
                       None \<Rightarrow> (Threw (Std e), hd)
                     | Some err2 \<Rightarrow> (Threw (Raw err2), hd)))"
      using c2 [OF a] by (simp only: Let_def)
  next
    assume "message_includes err ''quota exceeded''
         \<and> (\<forall>c. err_code err = Some c \<longrightarrow> c \<notin> set earlier_codes)"
    then show "handle_error config operation err env h' =
         (Threw (Std \<lparr>std_code = ''QUOTA_ERROR'', std_status = 507, std_operation = operation,
                      std_message = ''Email storage quota exceeded.'',
                      std_context = err, std_fatal = False\<rparr>), h')"
      by (rule c3)
  qed
qed


text \<open>The three signatures at concrete errors, with the configuration of the driver's test.\<close>

theorem error_classifier_signatures_witness:
  "withErrorHandler example_config ''list'' (throw (Raw refused_error)) calm_env [] =
     (Threw (Std \<lparr>std_code = ''CONNECTION_REFUSED'', std_status = 503, std_operation = ''list'',
                  std_message = ''Connection to IMAP server failed: Connection refused'',
                  std_context = refused_error, std_fatal = True\<rparr>), [])
   \<and> withErrorHandler example_config ''list'' (throw (Raw auth_failed_error)) calm_env [] =
     (Threw (Std \<lparr>std_code = ''AUTHENTICATION_ERROR'', std_status = 401, std_operation = ''list'',
                  std_message = ''IMAP authentication failed. Please check your credentials.'',
                  std_context = auth_failed_error, std_fatal = True\<rparr>),
      [DeleteActiveConnection ''test-user''])
   \<and> withErrorHandler example_config ''list'' (throw (Raw quota_error)) calm_env [] =
     (Threw (Std \<lparr>std_code = ''QUOTA_ERROR'', std_status = 507, std_operation = ''list'',
                  std_message = ''Email storage quota exceeded.'',
                  std_context = quota_error, std_fatal = False\<rparr>), [])"
proof -
  have t1: "throw (Raw refused_error) calm_env [] = (Threw (Raw refused_error), [])"
    and t2: "throw (Raw auth_failed_error) calm_env [] = (Threw (Raw auth_failed_error), [])"
    and t3: "throw (Raw quota_error) calm_env [] = (Threw (Raw quota_error), [])"
    by (simp_all add: throw_def)
  have q: "message_includes quota_error ''quota exceeded''
           \<and> (\<forall>c. err_code quota_error = Some c \<longrightarrow> c \<notin> set earlier_codes)"
    by (simp add: quota_error_def message_includes_def str_includes_def)
  have r1: "err_code refused_error = Some ''ECONNREFUSED''"
    by (simp add: refused_error_def)
  have r2: "err_code auth_failed_error = Some ''AUTHENTICATIONFAILED''"
    by (simp add: auth_failed_error_def)
  have g1: "withErrorHandler example_config ''list'' (throw (Raw refused_error)) calm_env [] =
     (Threw (Std \<lparr>std_code = ''CONNECTION_REFUSED'', std_status = 503, std_operation = ''list'',
                  std_message = ''Connection to IMAP server failed: Connection refused'',
                  std_context = refused_error, std_fatal = True\<rparr>), [])"
    using error_classifier_signatures [where fn = "throw (Raw refused_error)" and env = calm_env
            and h = "[]" and config = example_config and operation = "''list''", OF t1,
            THEN conjunct1, THEN mp, OF r1]
    by (simp add: refused_error_def show_str_def)
  have g2: "withErrorHandler example_config ''list'' (throw (Raw auth_failed_error)) calm_env [] =
     (Threw (Std \<lparr>std_code = ''AUTHENTICATION_ERROR'', std_status = 401, std_operation = ''list'',
                  std_message = ''IMAP authentication failed. Please check your credentials.'',
                  std_context = auth_failed_error, std_fatal = True\<rparr>),
      [DeleteActiveConnection ''test-user''])"
    using error_classifier_signatures [where fn = "throw (Raw auth_failed_error)" and env = calm_env
            and h = "[]" and config = example_config and operation = "''list''", OF t2,
            THEN conjunct2, THEN conjunct1, THEN mp, OF r2]
    by (simp add: Let_def example_config_def example_auth_def calm_env_def)
  have g3: "withErrorHandler example_config ''list'' (throw (Raw quota_error)) calm_env [] =
     (Threw (Std \<lparr>std_code = ''QUOTA_ERROR'', std_status = 507, std_operation = ''list'',
                  std_message = ''Email storage quota exceeded.'',
                  std_context = quota_error, std_fatal = False\<rparr>), [])"
    by (rule error_classifier_signatures [where fn = "throw (Raw quota_error)" and env = calm_env
            and h = "[]" and config = example_config and operation = "''list''", OF t3,
            THEN conjunct2, THEN conjunct2, THEN mp, OF q])
  show ?thesis
    using g1 g2 g3 by (intro conjI)
qed

text \<open>
  Claim C3 as stated fails: with an empty user id an authentication failure deletes
  nothing, and when \<^verbatim>\<open>deleteActiveConnection\<close> rejects, the error thrown is not the
  authentication error.
\<close>

theorem authentication_deletion_counterexample:
  "withErrorHandler \<lparr>cfg_auth = example_auth\<lparr>auth_userId := []\<rparr>\<rparr> ''list''
       (throw (Raw auth_failed_error)) calm_env [] =
     (Threw (Std \<lparr>std_code = ''AUTHENTICATION_ERROR'', std_status = 401, std_operation = ''list'',
                  std_message = ''IMAP authentication failed. Please check your credentials.'',
                  std_context = auth_failed_error, std_fatal = True\<rparr>), [])
   \<and> withErrorHandler example_config ''list'' (throw (Raw auth_failed_error))
       (calm_env\<lparr>deleteActiveConnection_result := (\<lambda>h. Some store_error)\<rparr>) [] =
     (Threw (Raw store_error), [DeleteActiveConnection ''test-user''])"
proof -
  have n: "\<not> (err_code auth_failed_error = Some ''ECONNREFUSED'' \<or> err_code auth_failed_error = Some ''ETIMEDOUT''
         \<or> err_code auth_failed_error = Some ''ENOTFOUND'')"
    by (simp add: auth_failed_error_def)
  have y: "err_code auth_failed_error = Some ''AUTHENTICATIONFAILED''
           \<or> err_code auth_failed_error = Some ''INVALIDCREDENTIALS''"
    by (simp add: auth_failed_error_def)
  show ?thesis
    unfolding withErrorHandler_def try_catch_def
    by (simp add: throw_def as_raw_Raw handle_auth [OF n y] Let_def example_auth_def example_config_def
          await_def deleteActiveConnection_def)
qed






section \<open>The unread flag (claim C6)\<close>



section \<open>The constructor and the provider table (claim C8)\<close>

lemma table_hosts_eq:
  "table_hosts d =
     (if d = ''gmail.com'' then (''imap.gmail.com'', ''smtp.gmail.com'')
      else if d = ''outlook.com'' \<or> d = ''hotmail.com'' \<or> d = ''live.com''
        then (''outlook.office365.com'', ''smtp.office365.com'')
      else if d = ''yahoo.com'' then (''imap.mail.yahoo.com'', ''smtp.mail.yahoo.com'')
      else if d = ''aol.com'' then (''imap.aol.com'', ''smtp.aol.com'')
      else if d = ''icloud.com'' then (''imap.mail.me.com'', ''smtp.mail.me.com'')
      else (''imap.'' @ d, ''smtp.'' @ d))"
  by (simp add: table_hosts_def provider_table_def)

text \<open>
  The options the constructor gives to the two clients: the account email and the access
  token of the configuration, the hosts of the provider table for the lower-cased domain of
  the email (\<^verbatim>\<open>imap.<domain>\<close> and \<^verbatim>\<open>smtp.<domain>\<close> for a domain that is not in the table),
  and the ports 993 and 465. Nothing else of the configuration is read. An email without
  \<^verbatim>\<open>@\<close> makes the constructor throw.
\<close>

lemma constructor_derives_hosts:
  "constructor config =
     (case email_domain (auth_email (cfg_auth config)) of
        Inl e \<Rightarrow> Inl e
      | Inr d \<Rightarrow>
          Inr (\<lparr>imap_user = auth_email (cfg_auth config),
                imap_password = auth_accessToken (cfg_auth config),
                imap_host = fst (table_hosts d), imap_port = 993, imap_tls = True,
                imap_rejectUnauthorized = False, imap_authTimeout = 30000\<rparr>,
               \<lparr>smtp_host = snd (table_hosts d), smtp_port = 465, smtp_secure = True,
                smtp_user = auth_email (cfg_auth config),
                smtp_pass = auth_accessToken (cfg_auth config)\<rparr>))"
  by (simp add: constructor_def getImapHost_def getSmtpHost_def table_hosts_eq split: sum.split)

lemma email_domain_custom: "email_domain ''user@custom.com'' = Inr ''custom.com''"
  by (simp add: email_domain_def index_or_undefined_def toLowerCase_def lower_char_def)

text \<open>
  Claim C8 (the code breaks it). A user connects \<^verbatim>\<open>user@custom.com\<close> with the explicit
  servers \<^verbatim>\<open>mail.custom.com\<close> and the ports 143 and 587. The route tests and stores these
  settings, but the configuration it builds the driver from has no place for them, and the
  driver's constructor takes \<^verbatim>\<open>imap.custom.com\<close>, \<^verbatim>\<open>smtp.custom.com\<close> and the ports 993 and 465.
\<close>

theorem constructor_ignores_explicit_servers:
  "route_servers custom_login =
     \<lparr>cs_imapServer = ''mail.custom.com'', cs_smtpServer = ''mail.custom.com'',
      cs_imapPort = 143, cs_smtpPort = 587\<rparr>
   \<and> constructor (route_driver_config ''u1'' custom_login)
       = Inr (\<lparr>imap_user = ''user@custom.com'', imap_password = ''secret'',
               imap_host = ''imap.custom.com'', imap_port = 993, imap_tls = True,
               imap_rejectUnauthorized = False, imap_authTimeout = 30000\<rparr>,
              \<lparr>smtp_host = ''smtp.custom.com'', smtp_port = 465, smtp_secure = True,
               smtp_user = ''user@custom.com'', smtp_pass = ''secret''\<rparr>)"
  by (simp add: route_servers_def custom_login_def or_else_def port_or_def Let_def
        route_driver_config_def constructor_def getImapHost_def getSmtpHost_def email_domain_custom)

section \<open>Message identifiers: \<^verbatim>\<open>mailbox:number\<close>\<close>

text \<open>
  Splitting an id \<^verbatim>\<open>mailbox:n\<close> at the colon and parsing the number gives the mailbox and
  \<open>n\<close> back, when the mailbox name has no colon.
\<close>

lemma split_on_no_sep: "c \<notin> set s \<Longrightarrow> split_on c s = [s]"
  by (induction s) auto

lemma split_on_append: "c \<notin> set a \<Longrightarrow> split_on c (a @ c # b) = a # split_on c b"
  by (induction a) auto

lemma of_char_digit_char: "d < 10 \<Longrightarrow> (of_char (digit_char d) :: nat) = 48 + d"
  by (simp add: digit_char_def)

lemma is_digit_digit_char: "d < 10 \<Longrightarrow> is_digit (digit_char d)"
  by (simp add: is_digit_def of_char_digit_char)

lemma digit_val_digit_char: "d < 10 \<Longrightarrow> digit_val (digit_char d) = d"
  by (simp add: digit_val_def of_char_digit_char)

lemma show_nat_digits: "\<forall>c \<in> set (show_nat n). is_digit c"
proof (induction n rule: show_nat.induct)
  case (1 n)
  show ?case
  proof (cases "n < 10")
    case True
    then show ?thesis by (subst show_nat.simps) (simp add: is_digit_digit_char)
  next
    case False
    then show ?thesis using 1 by (subst show_nat.simps) (simp add: is_digit_digit_char)
  qed
qed

lemma show_nat_nonempty: "show_nat n \<noteq> []"
  by (subst show_nat.simps) simp

lemma digits_val_snoc: "digits_val acc (xs @ [c]) = digits_val acc xs * 10 + digit_val c"
  by (induction xs arbitrary: acc) auto

lemma digits_val_show_nat: "digits_val 0 (show_nat n) = n"
proof (induction n rule: show_nat.induct)
  case (1 n)
  show ?case
  proof (cases "n < 10")
    case True
    then show ?thesis by (subst show_nat.simps) (simp add: digit_val_digit_char)
  next
    case False
    then have "digits_val 0 (show_nat (n div 10)) = n div 10" using 1 by simp
    with False show ?thesis
      by (subst show_nat.simps) (simp add: digits_val_snoc digit_val_digit_char)
  qed
qed

lemma is_digit_not_special:
  "is_digit c \<Longrightarrow> \<not> is_space c \<and> c \<noteq> CHR ''-'' \<and> c \<noteq> CHR ''+'' \<and> c \<noteq> CHR '':''"
  by (auto simp: is_digit_def is_space_def)

lemma show_nat_hd: "\<exists>c r. show_nat n = c # r \<and> is_digit c"
  using show_nat_nonempty [of n] show_nat_digits [of n] by (cases "show_nat n") auto

lemma takeWhile_all: "\<forall>c \<in> set xs. P c \<Longrightarrow> takeWhile P xs = xs"
  by (induction xs) auto

lemma parseInt10_digits:
  assumes "ds \<noteq> []" and "\<forall>c \<in> set ds. is_digit c"
  shows "parseInt10 (Some ds) = Some (int (digits_val 0 ds))"
proof -
  obtain c r where cr: "ds = c # r" using assms(1) by (cases ds) auto
  have d: "is_digit c" using assms(2) cr by simp
  have tw: "takeWhile is_digit ds = ds" using assms(2) by (rule takeWhile_all)
  have dw: "dropWhile is_space ds = ds" using is_digit_not_special [OF d] cr by simp
  have "parseInt10 (Some ds) =
          (let t = ds;
               neg = (case t of c # _ \<Rightarrow> c = CHR ''-'' | [] \<Rightarrow> False);
               u = (case t of c # r \<Rightarrow> if c = CHR ''-'' \<or> c = CHR ''+'' then r else t | [] \<Rightarrow> []);
               ds' = takeWhile is_digit u
           in if ds' = [] then None
              else Some ((if neg then - 1 else 1) * int (digits_val 0 ds')))"
    by (simp only: parseInt10_def option.case dw)
  also have "\<dots> = Some (int (digits_val 0 ds))"
    using is_digit_not_special [OF d] assms(1) tw [unfolded cr] by (simp add: cr Let_def del: digits_val.simps)
  finally show ?thesis .
qed

lemma parseInt10_neg_digits:
  assumes "ds \<noteq> []" and "\<forall>c \<in> set ds. is_digit c"
  shows "parseInt10 (Some (CHR ''-'' # ds)) = Some (- int (digits_val 0 ds))"
proof -
  have tw: "takeWhile is_digit ds = ds" using assms(2) by (rule takeWhile_all)
  have sp: "\<not> is_space CHR ''-''" by (simp add: is_space_def)
  have dw: "dropWhile is_space (CHR ''-'' # ds) = CHR ''-'' # ds" using sp by simp
  have "parseInt10 (Some (CHR ''-'' # ds)) =
          (let t = CHR ''-'' # ds;
               neg = (case t of c # _ \<Rightarrow> c = CHR ''-'' | [] \<Rightarrow> False);
               u = (case t of c # r \<Rightarrow> if c = CHR ''-'' \<or> c = CHR ''+'' then r else t | [] \<Rightarrow> []);
               ds' = takeWhile is_digit u
           in if ds' = [] then None
              else Some ((if neg then - 1 else 1) * int (digits_val 0 ds')))"
    by (simp only: parseInt10_def option.case dw)
  also have "\<dots> = Some (- int (digits_val 0 ds))"
    using assms(1) by (simp add: Let_def tw del: digits_val.simps)
  finally show ?thesis .
qed

lemma parseInt10_show_int: "parseInt10 (Some (show_int i)) = Some i"
proof (cases "i < 0")
  case False
  then show ?thesis
    using parseInt10_digits [OF show_nat_nonempty show_nat_digits, of "nat i"]
    by (simp add: show_int_def digits_val_show_nat)
next
  case True
  then show ?thesis
    using parseInt10_neg_digits [OF show_nat_nonempty show_nat_digits, of "nat (- i)"]
    by (simp add: show_int_def digits_val_show_nat)
qed

lemma show_int_no_colon: "CHR '':'' \<notin> set (show_int i)"
  using show_nat_digits is_digit_not_special by (auto simp: show_int_def)

lemma split_ident:
  "CHR '':'' \<notin> set mb \<Longrightarrow> split_on CHR '':'' (mb @ CHR '':'' # show_int i) = [mb, show_int i]"
  using split_on_append [of "CHR '':''" mb "show_int i"] split_on_no_sep [OF show_int_no_colon, of i]
  by simp

lemma first_part_ident: "CHR '':'' \<notin> set mb \<Longrightarrow> first_part (mb @ CHR '':'' # show_int i) = mb"
  by (simp add: first_part_def split_ident)

lemma second_part_ident:
  "CHR '':'' \<notin> set mb \<Longrightarrow> second_part (mb @ CHR '':'' # show_int i) = Some (show_int i)"
  by (simp add: second_part_def split_ident index_or_undefined_def)

lemma parse_ident_uid:
  "CHR '':'' \<notin> set mb \<Longrightarrow> parseInt10 (second_part (mb @ CHR '':'' # show_int i)) = Some i"
  by (simp add: second_part_ident parseInt10_show_int)

section \<open>\<^verbatim>\<open>delete\<close> (claim C7)\<close>









section \<open>\<^verbatim>\<open>create\<close> and \<^verbatim>\<open>saveSentEmail\<close> (claim C9)\<close>

lemma prepareEmail_cases:
  "(\<exists>m. prepareEmail config data env h = (Returned m, h))
   \<or> (\<exists>e. prepareEmail config data env h = (Threw (Raw e), h))"
  by (cases "sanitizeTipTapHtml env (om_message data)")
     (simp_all add: prepareEmail_def await_def sanitize_def ret_def Let_def)

lemma saveSentEmail_eq:
  "saveSentEmail m env h =
     (let m' = m\<lparr>mail_envelope := Some (mail_from m, mail_to m)\<rparr>;
          h2 = h @ connect_calls;
          h3 = h2 @ [ImapOpenBox ''Sent'']
      in case connect_emits env h2 of
           EvNone \<Rightarrow> (Pending, h2)
         | EvError err \<Rightarrow> (Returned (), h2)
         | EvReady \<Rightarrow>
             (case errback env h3 of
                Some err \<Rightarrow> (Returned (), h3)
              | None \<Rightarrow> (Returned (), h3 @ [SmtpSendMail m'])))"
  by (simp add: saveSentEmail_def try_catch_def await_def connectImap_eq openMailbox_def
        errback_call_def sendMail_def ret_def Let_def
        split: conn_event.split option.split sum.split)

lemma create_after_prepare:
  assumes "prepareEmail config data env h = (Returned m, h)"
  shows "create config data env h =
     (let h1 = h @ [SmtpSendMail m] in
      case sendMail_result env h1 of
        Inl err \<Rightarrow> handle_error config ''create'' err env h1
      | Inr messageId \<Rightarrow>
          (case saveSentEmail m env h1 of
             (Returned u, h') \<Rightarrow> (Returned messageId, h')
           | (Threw t, h') \<Rightarrow> handle_error config ''create'' (as_raw t) env h'
           | (Pending, h') \<Rightarrow> (Pending, h')))"
  unfolding create_def withErrorHandler_def try_catch_def await_def assms
  by (simp add: sendMail_def ret_def Let_def as_raw_Raw split: sum.split outcome.split prod.split)

lemma create_prepare_fails:
  assumes "prepareEmail config data env h = (Threw (Raw e), h)"
  shows "create config data env h = handle_error config ''create'' e env h"
  unfolding create_def withErrorHandler_def try_catch_def await_def assms
  by (simp add: as_raw_Raw)

text \<open>
  Claim C9, as amended. When \<^verbatim>\<open>create\<close> succeeds, it has called \<^verbatim>\<open>sendMail\<close> once with the
  prepared mail, then \<^verbatim>\<open>connectImap\<close>; when the connection became ready it has opened \<^verbatim>\<open>Sent\<close>,
  and when that succeeded too it has called \<^verbatim>\<open>sendMail\<close> a second time, with the same mail
  and an explicit envelope. So \<^verbatim>\<open>sendMail\<close> is called twice when the connection and the
  mailbox succeed and once otherwise, and no other call is made: nothing is appended to
  the mailbox.
\<close>

theorem create_sendMail_calls:
  assumes "create config data env h = (Returned r, h')"
  shows "\<exists>m. prepareEmail config data env h = (Returned m, h)
          \<and> (let m' = m\<lparr>mail_envelope := Some (mail_from m, mail_to m)\<rparr>;
                  h1 = h @ [SmtpSendMail m];
                  h2 = h1 @ connect_calls;
                  h3 = h2 @ [ImapOpenBox ''Sent''];
                  saved = (connect_emits env h2 = EvReady \<and> errback env h3 = None)
              in sendMail_result env h1 = Inr r
                 \<and> h' = (if saved then h3 @ [SmtpSendMail m']
                         else if connect_emits env h2 = EvReady then h3 else h2)
                 \<and> length (filter is_sendMail (drop (length h) h')) = (if saved then 2 else 1))"
proof -
  from prepareEmail_cases [of config data env h]
  obtain m where m: "prepareEmail config data env h = (Returned m, h)"
    using assms create_prepare_fails [of config data env h] by auto
  have c: "create config data env h =
     (let h1 = h @ [SmtpSendMail m] in
      case sendMail_result env h1 of
        Inl err \<Rightarrow> handle_error config ''create'' err env h1
      | Inr messageId \<Rightarrow>
          (case saveSentEmail m env h1 of
             (Returned u, h') \<Rightarrow> (Returned messageId, h')
           | (Threw t, h') \<Rightarrow> handle_error config ''create'' (as_raw t) env h'
           | (Pending, h') \<Rightarrow> (Pending, h')))"
    by (rule create_after_prepare [OF m])
  have "let m' = m\<lparr>mail_envelope := Some (mail_from m, mail_to m)\<rparr>;
                  h1 = h @ [SmtpSendMail m];
                  h2 = h1 @ connect_calls;
                  h3 = h2 @ [ImapOpenBox ''Sent''];
                  saved = (connect_emits env h2 = EvReady \<and> errback env h3 = None)
              in sendMail_result env h1 = Inr r
                 \<and> h' = (if saved then h3 @ [SmtpSendMail m']
                         else if connect_emits env h2 = EvReady then h3 else h2)
                 \<and> length (filter is_sendMail (drop (length h) h')) = (if saved then 2 else 1)"
    using assms unfolding c saveSentEmail_eq Let_def
    by (auto simp: connect_calls_def split: sum.splits conn_event.splits option.splits)
  with m show ?thesis by blast
qed


lemma prepareEmail_example:
  "sanitizeTipTapHtml env = (\<lambda>html. Inr html) \<Longrightarrow>
   prepareEmail example_config example_outgoing env h = (Returned example_mail, h)"
  by (simp add: prepareEmail_def await_def sanitize_def ret_def example_config_def example_auth_def
        example_outgoing_def example_mail_def format_recipient_def truthy_def show_str_def
        or_else_def Let_def)

text \<open>A run in which every call succeeds: two calls of \<^verbatim>\<open>sendMail\<close>.\<close>

theorem create_sendMail_calls_witness:
  "create example_config example_outgoing calm_env [] =
     (Returned (Some ''<1@example.com>''),
      [SmtpSendMail example_mail, ImapOnce ''ready'', ImapOnce ''error'', ImapConnect,
       ImapOpenBox ''Sent'',
       SmtpSendMail (example_mail\<lparr>mail_envelope :=
                       Some (''test@example.com'', [''Ann <ann@example.com>''])\<rparr>)])
   \<and> (\<exists>m. prepareEmail example_config example_outgoing calm_env [] = (Returned m, [])
          \<and> length (filter is_sendMail
                [SmtpSendMail m, ImapOnce ''ready'', ImapOnce ''error'', ImapConnect,
                 ImapOpenBox ''Sent'',
                 SmtpSendMail (m\<lparr>mail_envelope := Some (mail_from m, mail_to m)\<rparr>)]) = 2)"
proof -
  have p: "prepareEmail example_config example_outgoing calm_env [] = (Returned example_mail, [])"
    by (rule prepareEmail_example) (simp add: calm_env_simps)
  have hyp: "create example_config example_outgoing calm_env [] =
     (Returned (Some ''<1@example.com>''),
      [SmtpSendMail example_mail, ImapOnce ''ready'', ImapOnce ''error'', ImapConnect,
       ImapOpenBox ''Sent'',
       SmtpSendMail (example_mail\<lparr>mail_envelope :=
                       Some (''test@example.com'', [''Ann <ann@example.com>''])\<rparr>)])"
    unfolding create_after_prepare [OF p] saveSentEmail_eq
    by (simp add: calm_env_simps connect_calls_def Let_def example_mail_def)
  have "\<exists>m. prepareEmail example_config example_outgoing calm_env [] = (Returned m, [])
          \<and> length (filter is_sendMail
                [SmtpSendMail m, ImapOnce ''ready'', ImapOnce ''error'', ImapConnect,
                 ImapOpenBox ''Sent'',
                 SmtpSendMail (m\<lparr>mail_envelope := Some (mail_from m, mail_to m)\<rparr>)]) = 2"
    using create_sendMail_calls [OF hyp]
    by (simp add: calm_env_simps connect_calls_def Let_def)
  with hyp show ?thesis by (intro conjI)
qed

text \<open>
  Claim C9 as stated fails: when the \<^verbatim>\<open>Sent\<close> mailbox cannot be opened, \<^verbatim>\<open>create\<close> succeeds
  with one call of \<^verbatim>\<open>sendMail\<close>.
\<close>

theorem create_single_send_counterexample:
  "create example_config example_outgoing
       (calm_env\<lparr>errback := failing_on is_openBox pipe_error\<rparr>) [] =
     (Returned (Some ''<1@example.com>''),
      [SmtpSendMail example_mail, ImapOnce ''ready'', ImapOnce ''error'', ImapConnect,
       ImapOpenBox ''Sent''])
   \<and> length (filter is_sendMail
         [SmtpSendMail example_mail, ImapOnce ''ready'', ImapOnce ''error'', ImapConnect,
          ImapOpenBox ''Sent'']) = 1"
proof -
  have p: "prepareEmail example_config example_outgoing
             (calm_env\<lparr>errback := failing_on is_openBox pipe_error\<rparr>) [] = (Returned example_mail, [])"
    by (rule prepareEmail_example) (simp add: calm_env_simps)
  show ?thesis
    unfolding create_after_prepare [OF p] saveSentEmail_eq
    by (simp add: calm_env_simps connect_calls_def Let_def failing_on_def)
qed

section \<open>\<^verbatim>\<open>list\<close> and its page token (claims C1 and C2)\<close>

text \<open>What \<^verbatim>\<open>list\<close> does is the same for every page token.\<close>

lemma list_ignores_pageToken:
  "list config (params\<lparr>lp_pageToken := t\<rparr>) = list config params"
  by (simp add: list_def Let_def)

lemma parse_all_ids:
  "await_all (\<lambda>m. await (parseEmail (msg_raw m)) (\<lambda>parsed. ret \<lparr>th_id = f m, th_raw = parsed\<rparr>))
      msgs env h = (Returned ths, h')
   \<Longrightarrow> map th_id ths = map f msgs \<and> h' = h"
proof (induction msgs arbitrary: ths)
  case Nil
  then show ?case by (simp add: ret_def)
next
  case (Cons m msgs)
  then show ?case
    by (auto simp: await_def parseEmail_def ret_def split: sum.splits outcome.splits prod.splits)
qed

lemma fetchMessages_eq:
  "fetchMessages uids options env h =
     (if uids = [] then (Returned [], h)
      else (case fetch_emits env (h @ [ImapFetch uids options]) of
              (evs, Some err) \<Rightarrow> (Threw (Raw err), h @ [ImapFetch uids options])
            | (evs, None) \<Rightarrow>
                (Returned (map (\<lambda>ev. \<lparr>msg_uid = ev_seqno ev, msg_raw = concat (ev_chunks ev)\<rparr>) evs),
                 h @ [ImapFetch uids options])))"
  by (simp add: fetchMessages_def Let_def)

text \<open>A run of \<^verbatim>\<open>list\<close> that returns: the calls it made, the page it fetched, the ids and the token.\<close>

lemma list_returned:
  assumes "list config params env h = (Returned r, h')"
  shows "\<exists>uids.
     (let maxResults = (case lp_maxResults params of None \<Rightarrow> 100 | Some n \<Rightarrow> n);
          mb = normalizeMailbox (lp_folder params);
          h1 = h @ connect_calls;
          h2 = h1 @ [ImapOpenBox mb];
          h3 = h2 @ [ImapSearch (list_criteria (lp_query params))];
          sorted = sort_desc uids;
          page = slice0 sorted maxResults;
          h4 = h3 @ [ImapFetch (map Some page) header_options]
      in connect_emits env h1 = EvReady \<and> errback env h2 = None \<and> search_result env h3 = Inr uids
         \<and> lr_nextPageToken r =
               (if int (length sorted) > maxResults then
                  Some (show_jsnum (if page = [] then None else Some (last page - 1))
                        @ '':'' @ show_int maxResults)
                else None)
         \<and> (if page = [] then h' = h3 \<and> lr_threads r = []
             else h' = h4 \<and> snd (fetch_emits env h4) = None
                  \<and> map th_id (lr_threads r)
                      = map (\<lambda>ev. mb @ '':'' @ show_int (ev_seqno ev)) (fst (fetch_emits env h4))))"
proof -
  let ?maxResults = "(case lp_maxResults params of None \<Rightarrow> 100 | Some n \<Rightarrow> n)"
  let ?mb = "normalizeMailbox (lp_folder params)"
  let ?h1 = "h @ connect_calls"
  let ?h2 = "?h1 @ [ImapOpenBox ?mb]"
  let ?h3 = "?h2 @ [ImapSearch (list_criteria (lp_query params))]"
  note defs = list_def withErrorHandler_def try_catch_def await_def connectImap_eq openMailbox_def
    errback_call_def searchEmails_def Let_def list_criteria_def [symmetric]
  have c: "connect_emits env ?h1 = EvReady"
    using assms unfolding defs by (auto split: conn_event.splits)
  have o: "errback env ?h2 = None"
    using assms c unfolding defs by (auto split: option.splits)
  obtain uids where s: "search_result env ?h3 = Inr uids"
    using assms c o unfolding defs by (auto split: sum.splits)
  let ?sorted = "sort_desc uids"
  let ?page = "slice0 ?sorted ?maxResults"
  let ?h4 = "?h3 @ [ImapFetch (map Some ?page) header_options]"
  let ?tok = "(if int (length ?sorted) > ?maxResults then
                  Some (show_jsnum (if ?page = [] then None else Some (last ?page - 1))
                        @ '':'' @ show_int ?maxResults)
                else None)"
  let ?f = "(\<lambda>m. ?mb @ '':'' @ show_int (msg_uid m))"
  let ?parse = "await_all (\<lambda>m. await (parseEmail (msg_raw m)) (\<lambda>parsed. ret \<lparr>th_id = ?f m, th_raw = parsed\<rparr>))"
  have body: "list config params env h =
     (case fetchMessages (map Some ?page) header_options env ?h3 of
        (Returned msgs, h4) \<Rightarrow>
          (case ?parse msgs env h4 of
             (Returned ths, h5) \<Rightarrow> (Returned \<lparr>lr_threads = ths, lr_nextPageToken = ?tok\<rparr>, h5)
           | (Threw t, h5) \<Rightarrow> handle_error config ''list'' (as_raw t) env h5
           | (Pending, h5) \<Rightarrow> (Pending, h5))
      | (Threw t, h4) \<Rightarrow> handle_error config ''list'' (as_raw t) env h4
      | (Pending, h4) \<Rightarrow> (Pending, h4))"
    unfolding defs header_options_def using c o s
    by (simp add: ret_def split: outcome.split prod.split)
  obtain msgs h4 where f: "fetchMessages (map Some ?page) header_options env ?h3 = (Returned msgs, h4)"
    using assms unfolding body by (auto split: outcome.splits prod.splits)
  obtain ths where p: "?parse msgs env h4 = (Returned ths, h')"
    and r: "r = \<lparr>lr_threads = ths, lr_nextPageToken = ?tok\<rparr>"
    using assms unfolding body f by (auto split: outcome.splits prod.splits)
  have ids: "map th_id ths = map ?f msgs" and hh: "h' = h4"
    using parse_all_ids [OF p] by simp_all
  have pg: "(if ?page = [] then h' = ?h3 \<and> lr_threads r = []
             else h' = ?h4 \<and> snd (fetch_emits env ?h4) = None
                  \<and> map th_id (lr_threads r)
                      = map (\<lambda>ev. ?mb @ '':'' @ show_int (ev_seqno ev)) (fst (fetch_emits env ?h4)))"
  proof (cases "?page = []")
    case True
    then have "msgs = []" "h4 = ?h3" using f by (simp_all add: fetchMessages_eq)
    then show ?thesis using True ids hh r by simp
  next
    case False
    then show ?thesis
      using f ids hh r
      by (auto simp: fetchMessages_eq comp_def split: prod.splits option.splits)
  qed
  show ?thesis
    apply (rule exI [of _ uids])
    unfolding Let_def
    using c o s r pg by simp
qed

lemma small_values:
  "normalizeMailbox ''INBOX'' = ''INBOX''"
  "show_int 2 = ''2''" "show_int 3 = ''3''" "show_int 4 = ''4''"
  by code_simp+

lemma mailbox_env_simps:
  "connect_emits (mailbox_env mb) = (\<lambda>h. EvReady)"
  "errback (mailbox_env mb) = (\<lambda>h. None)"
  "search_result (mailbox_env mb) = (\<lambda>h. Inr (map fst mb))"
  "fetch_emits (mailbox_env mb) = mailbox_events mb"
  "simpleParser (mailbox_env mb) = (\<lambda>raw. Inr (blank_email\<lparr>pe_subject := Some raw\<rparr>))"
  by (simp_all add: mailbox_env_def calm_env_def)

lemma example_fetch:
  "mailbox_events example_mailbox
     [ImapOnce ''ready'', ImapOnce ''error'', ImapConnect, ImapOpenBox ''INBOX'', ImapSearch [CritAll],
      ImapFetch [Some 9, Some 5] opts] =
     ([\<lparr>ev_seqno = 3, ev_uid = 5, ev_chunks = [''c'']\<rparr>,
       \<lparr>ev_seqno = 4, ev_uid = 9, ev_chunks = [''d'']\<rparr>], None)"
  by (simp add: mailbox_events_def example_mailbox_def)

lemma example_uids: "map fst example_mailbox = [1, 3, 5, 9]"
  by (simp add: example_mailbox_def)

text \<open>\<^verbatim>\<open>list\<close> on the example mailbox, two results a page, for any page token.\<close>

lemma list_example:
  "list example_config (example_params tok) (mailbox_env example_mailbox) [] =
     (Returned example_page, example_list_calls)"
  unfolding list_def withErrorHandler_def try_catch_def await_def connectImap_def openMailbox_def
    errback_call_def searchEmails_def fetchMessages_def parseEmail_def Let_def example_params_def
    mailbox_env_simps
  by (simp add: small_values sort_desc_def slice0_def example_fetch example_uids await_def
        parseEmail_def mailbox_env_simps ret_def show_jsnum_def example_page_def
        example_list_calls_def header_options_def)

text \<open>
  Claim C1 (the code breaks it). The page token has no effect on \<^verbatim>\<open>list\<close>: it is parsed
  into \<open>startUid\<close>, which nothing reads. With the mailbox of the specification's example and
  two results a page, \<^verbatim>\<open>list\<close> called with the page token \<^verbatim>\<open>4:2\<close> fetches the UIDs 9 and 5
  again, both above the cursor 4, and returns the token \<^verbatim>\<open>4:2\<close> again.
\<close>

theorem list_page_token_ignored:
  "list config (params\<lparr>lp_pageToken := tok\<rparr>) = list config params
   \<and> list example_config
       \<lparr>lp_folder = ''INBOX'', lp_query = None, lp_maxResults = Some 2, lp_labelIds = None,
        lp_pageToken = Some (TokString ''4:2'')\<rparr>
       (mailbox_env example_mailbox) [] =
     (Returned \<lparr>lr_threads = [\<lparr>th_id = ''INBOX:3'', th_raw = blank_email\<lparr>pe_subject := Some ''c''\<rparr>\<rparr>,
                                \<lparr>th_id = ''INBOX:4'', th_raw = blank_email\<lparr>pe_subject := Some ''d''\<rparr>\<rparr>],
                 lr_nextPageToken = Some ''4:2''\<rparr>,
      [ImapOnce ''ready'', ImapOnce ''error'', ImapConnect, ImapOpenBox ''INBOX'', ImapSearch [CritAll],
       ImapFetch [Some 9, Some 5] \<lparr>fo_bodies = ''HEADER'', fo_struct = True, fo_markSeen = None\<rparr>])"
proof -
  have "list example_config
       \<lparr>lp_folder = ''INBOX'', lp_query = None, lp_maxResults = Some 2, lp_labelIds = None,
        lp_pageToken = Some (TokString ''4:2'')\<rparr>
       (mailbox_env example_mailbox) [] =
     (Returned \<lparr>lr_threads = [\<lparr>th_id = ''INBOX:3'', th_raw = blank_email\<lparr>pe_subject := Some ''c''\<rparr>\<rparr>,
                                \<lparr>th_id = ''INBOX:4'', th_raw = blank_email\<lparr>pe_subject := Some ''d''\<rparr>\<rparr>],
                 lr_nextPageToken = Some ''4:2''\<rparr>,
      [ImapOnce ''ready'', ImapOnce ''error'', ImapConnect, ImapOpenBox ''INBOX'', ImapSearch [CritAll],
       ImapFetch [Some 9, Some 5] \<lparr>fo_bodies = ''HEADER'', fo_struct = True, fo_markSeen = None\<rparr>])"
    using list_example [of "Some (TokString ''4:2'')"]
    by (simp add: example_params_def example_page_def example_list_calls_def header_options_def)
  then show ?thesis
    using list_ignores_pageToken [where config = config and params = params and t = tok] by (intro conjI)
qed

text \<open>
  Claim C2 (the code breaks it). In the same example \<^verbatim>\<open>list\<close> returns the same two threads
  and the token \<^verbatim>\<open>4:2\<close> whatever page token it is given, so following the returned token
  never reaches a null token and never reaches the UIDs 3 and 1.
\<close>

theorem pagination_repeats_first_page:
  "\<forall>tok. \<exists>r h'. list example_config (example_params tok) (mailbox_env example_mailbox) [] = (Returned r, h')
       \<and> map th_id (lr_threads r) = [''INBOX:3'', ''INBOX:4'']
       \<and> lr_nextPageToken r = Some ''4:2''
       \<and> h' = example_list_calls"
  by (simp add: list_example example_page_def)

text \<open>
  When the search finds nothing and the page size is not negative, \<^verbatim>\<open>list\<close> returns an
  empty page and no token.
\<close>

lemma list_empty:
  assumes "connect_emits env (h @ connect_calls) = EvReady"
    and "errback env (h @ connect_calls @ [ImapOpenBox (normalizeMailbox (lp_folder params))]) = None"
    and "search_result env (h @ connect_calls @ [ImapOpenBox (normalizeMailbox (lp_folder params)),
                                                 ImapSearch (list_criteria (lp_query params))]) = Inr []"
    and "\<forall>n. lp_maxResults params = Some n \<longrightarrow> 0 \<le> n"
  shows "list config params env h =
     (Returned \<lparr>lr_threads = [], lr_nextPageToken = None\<rparr>,
      h @ connect_calls @ [ImapOpenBox (normalizeMailbox (lp_folder params)),
                           ImapSearch (list_criteria (lp_query params))])"
  using assms
  unfolding list_def withErrorHandler_def try_catch_def await_def connectImap_eq openMailbox_def
    errback_call_def searchEmails_def Let_def list_criteria_def [symmetric]
  by (simp add: fetchMessages_def sort_desc_def slice0_def ret_def split: option.split)
     (simp add: not_less)


section \<open>The ids \<^verbatim>\<open>list\<close> returns (claim C10)\<close>

lemma handle_error_history:
  "\<exists>rest. snd (handle_error config operation err env h) = h @ rest"
  unfolding handle_error_def throw_def await_def deleteActiveConnection_def Let_def
  by (simp split: option.split)

lemma withErrorHandler_extends:
  fixes fn :: "'a prog"
  assumes "\<exists>rest. snd (fn env h) = h @ pre @ rest"
  shows "\<exists>rest. snd (withErrorHandler config operation fn env h) = h @ pre @ rest"
proof -
  obtain rest where r: "snd (fn env h) = h @ pre @ rest" using assms by blast
  obtain o1 where f: "fn env h = (o1, h @ pre @ rest)" using r by (cases "fn env h") auto
  show ?thesis
  proof (cases o1)
    case (Threw t)
    obtain rest' where
      "snd (handle_error config operation (as_raw t) env (h @ pre @ rest) :: 'a outcome \<times> history)
         = (h @ pre @ rest) @ rest'"
      using handle_error_history by blast
    then have "snd (withErrorHandler config operation fn env h) = h @ pre @ (rest @ rest')"
      using f Threw by (simp add: withErrorHandler_def try_catch_def)
    then show ?thesis by blast
  next
    case (Returned x)
    then have "snd (withErrorHandler config operation fn env h) = h @ pre @ rest"
      using f by (simp add: withErrorHandler_def try_catch_def)
    then show ?thesis by blast
  next
    case Pending
    then have "snd (withErrorHandler config operation fn env h) = h @ pre @ rest"
      using f by (simp add: withErrorHandler_def try_catch_def)
    then show ?thesis by blast
  qed
qed

text \<open>
  The calls \<^verbatim>\<open>get\<close>, \<^verbatim>\<open>markAsRead\<close>, \<^verbatim>\<open>markAsUnread\<close> and \<^verbatim>\<open>delete\<close> make for the id \<^verbatim>\<open>mailbox:n\<close>,
  once connected and with the mailbox open: the number \<open>n\<close> is passed on as a UID.
\<close>

lemma get_addresses:
  assumes "CHR '':'' \<notin> set mb" and "mb \<noteq> []"
    and "connect_emits env (h @ connect_calls) = EvReady"
    and "errback env (h @ connect_calls @ [ImapOpenBox mb]) = None"
  shows "\<exists>rest. snd (get config (mb @ '':'' @ show_int n) env h)
           = h @ (connect_calls @ [ImapOpenBox mb, ImapFetch [Some n] full_options]) @ rest"
proof -
  have p: "first_part (mb @ '':'' @ show_int n) = mb"
    "parseInt10 (second_part (mb @ '':'' @ show_int n)) = Some n"
    using assms(1) first_part_ident [of mb n] parse_ident_uid [of mb n] by simp_all
  have m: "or_else (Some mb) ''INBOX'' = mb" using assms(2) by (simp add: or_else_def)
  show ?thesis
    unfolding get_def Let_def p m
    apply (rule withErrorHandler_extends)
    using assms(3,4)
    by (simp add: await_def connectImap_eq openMailbox_def errback_call_def fetchMessages_def
          parseEmail_def throw_def ask_def ret_def Let_def full_options_def
          split: prod.split option.split list.split sum.split)
qed

lemma markAsRead_addresses:
  assumes "CHR '':'' \<notin> set mb"
    and "connect_emits env (h @ connect_calls) = EvReady"
    and "errback env (h @ connect_calls @ [ImapOpenBox mb]) = None"
  shows "\<exists>rest. snd (markAsRead config [mb @ '':'' @ show_int n] env h)
           = h @ (connect_calls @ [ImapOpenBox mb, ImapAddFlags [Some n] Seen_flag]) @ rest"
proof -
  have p: "first_part (mb @ '':'' @ show_int n) = mb"
    "parseInt10 (second_part (mb @ '':'' @ show_int n)) = Some n"
    using assms(1) first_part_ident [of mb n] parse_ident_uid [of mb n] by simp_all
  show ?thesis
    unfolding markAsRead_def Let_def for_each.simps p
    apply (rule withErrorHandler_extends)
    using assms(2,3)
    by (simp add: await_def connectImap_eq openMailbox_def errback_call_def ret_def Let_def
          split: prod.split option.split)
qed

lemma markAsUnread_addresses:
  assumes "CHR '':'' \<notin> set mb"
    and "connect_emits env (h @ connect_calls) = EvReady"
    and "errback env (h @ connect_calls @ [ImapOpenBox mb]) = None"
  shows "\<exists>rest. snd (markAsUnread config [mb @ '':'' @ show_int n] env h)
           = h @ (connect_calls @ [ImapOpenBox mb, ImapDelFlags [Some n] Seen_flag]) @ rest"
proof -
  have p: "first_part (mb @ '':'' @ show_int n) = mb"
    "parseInt10 (second_part (mb @ '':'' @ show_int n)) = Some n"
    using assms(1) first_part_ident [of mb n] parse_ident_uid [of mb n] by simp_all
  show ?thesis
    unfolding markAsUnread_def Let_def for_each.simps p
    apply (rule withErrorHandler_extends)
    using assms(2,3)
    by (simp add: await_def connectImap_eq openMailbox_def errback_call_def ret_def Let_def
          split: prod.split option.split)
qed

lemma delete_addresses:
  assumes "CHR '':'' \<notin> set mb" and "mb \<noteq> []"
    and "connect_emits env (h @ connect_calls) = EvReady"
    and "errback env (h @ connect_calls @ [ImapOpenBox mb]) = None"
  shows "\<exists>rest. snd (delete config (mb @ '':'' @ show_int n) env h)
           = h @ (connect_calls @ [ImapOpenBox mb, ImapMove [Some n] ''Trash'']) @ rest"
proof -
  have p: "first_part (mb @ '':'' @ show_int n) = mb"
    "parseInt10 (second_part (mb @ '':'' @ show_int n)) = Some n"
    using assms(1) first_part_ident [of mb n] parse_ident_uid [of mb n] by simp_all
  have m: "or_else (Some mb) ''INBOX'' = mb" using assms(2) by (simp add: or_else_def)
  show ?thesis
    unfolding delete_def Let_def p m
    apply (rule withErrorHandler_extends)
    using assms(3,4)
    by (simp add: await_def connectImap_eq openMailbox_def errback_call_def move_or_flag_def Let_def
          split: prod.split option.split)
qed

lemma listDrafts_returned:
  assumes "listDrafts config params env h = (Returned r, h')"
  shows "\<exists>uids.
     (let maxResults = (case dp_maxResults params of None \<Rightarrow> 100 | Some n \<Rightarrow> n);
          h1 = h @ connect_calls;
          h2 = h1 @ [ImapOpenBox ''Drafts''];
          h3 = h2 @ [ImapSearch (list_criteria (dp_q params))];
          sorted = sort_desc uids;
          page = slice0 sorted maxResults;
          h4 = h3 @ [ImapFetch (map Some page) header_options]
      in connect_emits env h1 = EvReady \<and> errback env h2 = None \<and> search_result env h3 = Inr uids
         \<and> lr_nextPageToken r =
               (if int (length sorted) > maxResults then
                  Some (show_jsnum (if page = [] then None else Some (last page - 1)))
                else None)
         \<and> (if page = [] then h' = h3 \<and> lr_threads r = []
             else h' = h4 \<and> snd (fetch_emits env h4) = None
                  \<and> map th_id (lr_threads r)
                      = map (\<lambda>ev. ''Drafts:'' @ show_int (ev_seqno ev)) (fst (fetch_emits env h4))))"
proof -
  let ?maxResults = "(case dp_maxResults params of None \<Rightarrow> 100 | Some n \<Rightarrow> n)"
  let ?h1 = "h @ connect_calls"
  let ?h2 = "?h1 @ [ImapOpenBox ''Drafts'']"
  let ?h3 = "?h2 @ [ImapSearch (list_criteria (dp_q params))]"
  note defs = listDrafts_def withErrorHandler_def try_catch_def await_def connectImap_eq openMailbox_def
    errback_call_def searchEmails_def Let_def list_criteria_def [symmetric]
  have c: "connect_emits env ?h1 = EvReady"
    using assms unfolding defs by (auto split: conn_event.splits)
  have o: "errback env ?h2 = None"
    using assms c unfolding defs by (auto split: option.splits)
  obtain uids where s: "search_result env ?h3 = Inr uids"
    using assms c o unfolding defs by (auto split: sum.splits)
  let ?sorted = "sort_desc uids"
  let ?page = "slice0 ?sorted ?maxResults"
  let ?h4 = "?h3 @ [ImapFetch (map Some ?page) header_options]"
  let ?tok = "(if int (length ?sorted) > ?maxResults then
                  Some (show_jsnum (if ?page = [] then None else Some (last ?page - 1)))
                else None)"
  let ?f = "(\<lambda>m. ''Drafts:'' @ show_int (msg_uid m))"
  let ?parse = "await_all (\<lambda>m. await (parseEmail (msg_raw m)) (\<lambda>parsed. ret \<lparr>th_id = ?f m, th_raw = parsed\<rparr>))"
  have body: "listDrafts config params env h =
     (case fetchMessages (map Some ?page) header_options env ?h3 of
        (Returned msgs, h4) \<Rightarrow>
          (case ?parse msgs env h4 of
             (Returned ths, h5) \<Rightarrow> (Returned \<lparr>lr_threads = ths, lr_nextPageToken = ?tok\<rparr>, h5)
           | (Threw t, h5) \<Rightarrow> handle_error config ''listDrafts'' (as_raw t) env h5
           | (Pending, h5) \<Rightarrow> (Pending, h5))
      | (Threw t, h4) \<Rightarrow> handle_error config ''listDrafts'' (as_raw t) env h4
      | (Pending, h4) \<Rightarrow> (Pending, h4))"
    unfolding defs header_options_def using c o s
    by (simp add: ret_def split: outcome.split prod.split)
  obtain msgs h4 where f: "fetchMessages (map Some ?page) header_options env ?h3 = (Returned msgs, h4)"
    using assms unfolding body by (auto split: outcome.splits prod.splits)
  obtain ths where p: "?parse msgs env h4 = (Returned ths, h')"
    and r: "r = \<lparr>lr_threads = ths, lr_nextPageToken = ?tok\<rparr>"
    using assms unfolding body f by (auto split: outcome.splits prod.splits)
  have ids: "map th_id ths = map ?f msgs" and hh: "h' = h4"
    using parse_all_ids [OF p] by simp_all
  have pg: "(if ?page = [] then h' = ?h3 \<and> lr_threads r = []
             else h' = ?h4 \<and> snd (fetch_emits env ?h4) = None
                  \<and> map th_id (lr_threads r)
                      = map (\<lambda>ev. ''Drafts:'' @ show_int (ev_seqno ev)) (fst (fetch_emits env ?h4)))"
  proof (cases "?page = []")
    case True
    then have "msgs = []" "h4 = ?h3" using f by (simp_all add: fetchMessages_eq)
    then show ?thesis using True ids hh r by simp
  next
    case False
    then show ?thesis
      using f ids hh r
      by (auto simp: fetchMessages_eq comp_def split: prod.splits option.splits)
  qed
  show ?thesis
    apply (rule exI [of _ uids])
    unfolding Let_def
    using c o s r pg by simp
qed

lemma list_ids:
  assumes "list config params env h = (Returned r, h')"
  shows "lr_threads r = []
         \<or> ((\<exists>uids. h' \<noteq> [] \<and> last h' = ImapFetch uids header_options)
            \<and> map th_id (lr_threads r)
                = map (\<lambda>ev. normalizeMailbox (lp_folder params) @ '':'' @ show_int (ev_seqno ev))
                    (fst (fetch_emits env h')))"
  using list_returned [OF assms] unfolding Let_def
  by (auto split: if_splits)

lemma listDrafts_ids:
  assumes "listDrafts config params env h = (Returned r, h')"
  shows "lr_threads r = []
         \<or> ((\<exists>uids. h' \<noteq> [] \<and> last h' = ImapFetch uids header_options)
            \<and> map th_id (lr_threads r)
                = map (\<lambda>ev. ''Drafts:'' @ show_int (ev_seqno ev)) (fst (fetch_emits env h')))"
  using listDrafts_returned [OF assms] unfolding Let_def
  by (auto split: if_splits)

lemma mailbox_env_serves_by_uid: "serves_by_uid (mailbox_env mb)"
  by (auto simp: serves_by_uid_def mailbox_env_simps mailbox_events_def)

lemma example_drafts_fetch:
  "mailbox_events example_mailbox
     [ImapOnce ''ready'', ImapOnce ''error'', ImapConnect, ImapOpenBox ''Drafts'', ImapSearch [CritAll],
      ImapFetch [Some 9, Some 5] opts] =
     ([\<lparr>ev_seqno = 3, ev_uid = 5, ev_chunks = [''c'']\<rparr>,
       \<lparr>ev_seqno = 4, ev_uid = 9, ev_chunks = [''d'']\<rparr>], None)"
  by (simp add: mailbox_events_def example_mailbox_def)

lemma listDrafts_example:
  "listDrafts example_config example_drafts_params (mailbox_env example_mailbox) [] =
     (Returned example_drafts_page, example_drafts_calls)"
  unfolding listDrafts_def withErrorHandler_def try_catch_def await_def connectImap_def openMailbox_def
    errback_call_def searchEmails_def fetchMessages_def parseEmail_def Let_def example_drafts_params_def
    mailbox_env_simps
  by (simp add: small_values sort_desc_def slice0_def example_drafts_fetch example_uids await_def
        parseEmail_def mailbox_env_simps ret_def show_jsnum_def example_drafts_page_def
        example_drafts_calls_def header_options_def truthy_def)

text \<open>
  Claim C10. The ids that \<^verbatim>\<open>list\<close> and \<^verbatim>\<open>listDrafts\<close> return are the mailbox name, a
  colon and the sequence number of the fetch event of each message, in the order of the
  events. Given such an id for an event, \<^verbatim>\<open>get\<close>, \<^verbatim>\<open>delete\<close>, \<^verbatim>\<open>markAsRead\<close> and
  \<^verbatim>\<open>markAsUnread\<close> (once connected, with the mailbox open) send their fetch, move or flag
  command for the UID equal to that sequence number; so when the sequence number of the
  listed message differs from its UID, a server that answers by UID gives \<^verbatim>\<open>get\<close> only
  messages with another UID than the listed one.
\<close>

theorem list_ids_are_sequence_numbers:
  "(\<forall>r h'. list config params env h = (Returned r, h') \<longrightarrow>
        lr_threads r = []
        \<or> ((\<exists>uids. h' \<noteq> [] \<and> last h' = ImapFetch uids header_options)
           \<and> map th_id (lr_threads r)
               = map (\<lambda>ev. normalizeMailbox (lp_folder params) @ '':'' @ show_int (ev_seqno ev))
                   (fst (fetch_emits env h'))))
   \<and> (\<forall>r h'. listDrafts config dparams env h = (Returned r, h') \<longrightarrow>
        lr_threads r = []
        \<or> ((\<exists>uids. h' \<noteq> [] \<and> last h' = ImapFetch uids header_options)
           \<and> map th_id (lr_threads r)
               = map (\<lambda>ev. ''Drafts:'' @ show_int (ev_seqno ev)) (fst (fetch_emits env h'))))
   \<and> (CHR '':'' \<notin> set mb \<and> mb \<noteq> []
        \<and> connect_emits env (h @ connect_calls) = EvReady
        \<and> errback env (h @ connect_calls @ [ImapOpenBox mb]) = None \<longrightarrow>
       (let ident = mb @ '':'' @ show_int (ev_seqno ev);
            hm = h @ connect_calls @ [ImapOpenBox mb]
        in prefix (hm @ [ImapFetch [Some (ev_seqno ev)] full_options]) (snd (get config ident env h))
           \<and> prefix (hm @ [ImapMove [Some (ev_seqno ev)] ''Trash'']) (snd (delete config ident env h))
           \<and> prefix (hm @ [ImapAddFlags [Some (ev_seqno ev)] Seen_flag])
                (snd (markAsRead config [ident] env h))
           \<and> prefix (hm @ [ImapDelFlags [Some (ev_seqno ev)] Seen_flag])
                (snd (markAsUnread config [ident] env h))
           \<and> (serves_by_uid env \<and> ev_seqno ev \<noteq> ev_uid ev \<longrightarrow>
                (\<forall>ev' \<in> set (fst (fetch_emits env
                                     (hm @ [ImapFetch [Some (ev_seqno ev)] full_options]))).
                   ev_uid ev' \<noteq> ev_uid ev))))"
proof (intro conjI allI impI)
  fix r h' assume "list config params env h = (Returned r, h')"
  then show "lr_threads r = []
        \<or> ((\<exists>uids. h' \<noteq> [] \<and> last h' = ImapFetch uids header_options)
           \<and> map th_id (lr_threads r)
               = map (\<lambda>ev. normalizeMailbox (lp_folder params) @ '':'' @ show_int (ev_seqno ev))
                   (fst (fetch_emits env h')))"
    by (rule list_ids)
next
  fix r h' assume "listDrafts config dparams env h = (Returned r, h')"
  then show "lr_threads r = []
        \<or> ((\<exists>uids. h' \<noteq> [] \<and> last h' = ImapFetch uids header_options)
           \<and> map th_id (lr_threads r)
               = map (\<lambda>ev. ''Drafts:'' @ show_int (ev_seqno ev)) (fst (fetch_emits env h')))"
    by (rule listDrafts_ids)
next
  assume a: "CHR '':'' \<notin> set mb \<and> mb \<noteq> []
        \<and> connect_emits env (h @ connect_calls) = EvReady
        \<and> errback env (h @ connect_calls @ [ImapOpenBox mb]) = None"
  then have c: "CHR '':'' \<notin> set mb" and n: "mb \<noteq> []"
    and cr: "connect_emits env (h @ connect_calls) = EvReady"
    and ob: "errback env (h @ connect_calls @ [ImapOpenBox mb]) = None"
    by simp_all
  let ?s = "ev_seqno ev"
  let ?hm = "h @ connect_calls @ [ImapOpenBox mb]"
  have g: "prefix (?hm @ [ImapFetch [Some ?s] full_options]) (snd (get config (mb @ '':'' @ show_int ?s) env h))"
    using get_addresses [OF c n cr ob, of config ?s] by (auto simp: prefix_def)
  have d: "prefix (?hm @ [ImapMove [Some ?s] ''Trash'']) (snd (delete config (mb @ '':'' @ show_int ?s) env h))"
    using delete_addresses [OF c n cr ob, of config ?s] by (auto simp: prefix_def)
  have mr: "prefix (?hm @ [ImapAddFlags [Some ?s] Seen_flag])
                (snd (markAsRead config [mb @ '':'' @ show_int ?s] env h))"
    using markAsRead_addresses [OF c cr ob, of config ?s] by (auto simp: prefix_def)
  have mu: "prefix (?hm @ [ImapDelFlags [Some ?s] Seen_flag])
                (snd (markAsUnread config [mb @ '':'' @ show_int ?s] env h))"
    using markAsUnread_addresses [OF c cr ob, of config ?s] by (auto simp: prefix_def)
  have u: "serves_by_uid env \<and> ?s \<noteq> ev_uid ev \<longrightarrow>
                (\<forall>ev' \<in> set (fst (fetch_emits env (?hm @ [ImapFetch [Some ?s] full_options]))).
                   ev_uid ev' \<noteq> ev_uid ev)"
  proof (intro impI ballI)
    fix ev'
    assume s: "serves_by_uid env \<and> ?s \<noteq> ev_uid ev"
      and e: "ev' \<in> set (fst (fetch_emits env (?hm @ [ImapFetch [Some ?s] full_options])))"
    from s e have "Some (ev_uid ev') \<in> set [Some ?s]"
      unfolding serves_by_uid_def by blast
    then show "ev_uid ev' \<noteq> ev_uid ev" using s by auto
  qed
  show "(let ident = mb @ '':'' @ show_int (ev_seqno ev);
            hm = h @ connect_calls @ [ImapOpenBox mb]
        in prefix (hm @ [ImapFetch [Some (ev_seqno ev)] full_options]) (snd (get config ident env h))
           \<and> prefix (hm @ [ImapMove [Some (ev_seqno ev)] ''Trash'']) (snd (delete config ident env h))
           \<and> prefix (hm @ [ImapAddFlags [Some (ev_seqno ev)] Seen_flag])
                (snd (markAsRead config [ident] env h))
           \<and> prefix (hm @ [ImapDelFlags [Some (ev_seqno ev)] Seen_flag])
                (snd (markAsUnread config [ident] env h))
           \<and> (serves_by_uid env \<and> ev_seqno ev \<noteq> ev_uid ev \<longrightarrow>
                (\<forall>ev' \<in> set (fst (fetch_emits env
                                     (hm @ [ImapFetch [Some (ev_seqno ev)] full_options]))).
                   ev_uid ev' \<noteq> ev_uid ev)))"
    unfolding Let_def using g d mr mu u by (intro conjI)
qed

text \<open>
  The example mailbox: the messages with UIDs 5 and 9 are listed as \<^verbatim>\<open>INBOX:3\<close> and
  \<^verbatim>\<open>INBOX:4\<close>, and \<^verbatim>\<open>get\<close> of \<^verbatim>\<open>INBOX:3\<close> fetches the message with UID 3.
\<close>

theorem list_ids_are_sequence_numbers_witness:
  "list example_config (example_params None) (mailbox_env example_mailbox) [] =
     (Returned example_page, example_list_calls)
   \<and> map th_id (lr_threads example_page)
       = map (\<lambda>ev. ''INBOX:'' @ show_int (ev_seqno ev))
           (fst (fetch_emits (mailbox_env example_mailbox) example_list_calls))
   \<and> map th_id (lr_threads example_page) = [''INBOX:3'', ''INBOX:4'']
   \<and> map ev_uid (fst (fetch_emits (mailbox_env example_mailbox) example_list_calls)) = [5, 9]
   \<and> listDrafts example_config example_drafts_params (mailbox_env example_mailbox) [] =
       (Returned example_drafts_page, example_drafts_calls)
   \<and> map th_id (lr_threads example_drafts_page)
       = map (\<lambda>ev. ''Drafts:'' @ show_int (ev_seqno ev))
           (fst (fetch_emits (mailbox_env example_mailbox) example_drafts_calls))
   \<and> prefix (connect_calls @ [ImapOpenBox ''INBOX'', ImapFetch [Some 3] full_options])
        (snd (get example_config ''INBOX:3'' (mailbox_env example_mailbox) []))
   \<and> prefix (connect_calls @ [ImapOpenBox ''INBOX'', ImapMove [Some 3] ''Trash''])
        (snd (delete example_config ''INBOX:3'' (mailbox_env example_mailbox) []))
   \<and> prefix (connect_calls @ [ImapOpenBox ''INBOX'', ImapAddFlags [Some 3] Seen_flag])
        (snd (markAsRead example_config [''INBOX:3''] (mailbox_env example_mailbox) []))
   \<and> prefix (connect_calls @ [ImapOpenBox ''INBOX'', ImapDelFlags [Some 3] Seen_flag])
        (snd (markAsUnread example_config [''INBOX:3''] (mailbox_env example_mailbox) []))
   \<and> map ev_uid (fst (fetch_emits (mailbox_env example_mailbox)
                        (connect_calls @ [ImapOpenBox ''INBOX'', ImapFetch [Some 3] full_options])))
       = [3]
   \<and> list_all (\<lambda>ev'. ev_uid ev' \<noteq> ev_uid listed_event)
        (fst (fetch_emits (mailbox_env example_mailbox)
               (connect_calls @ [ImapOpenBox ''INBOX'', ImapFetch [Some 3] full_options])))"
proof -
  let ?env = "mailbox_env example_mailbox"
  note T = list_ids_are_sequence_numbers [of example_config "example_params None" ?env "[]"
             example_drafts_params "''INBOX''" listed_event]
  have l: "list example_config (example_params None) ?env [] = (Returned example_page, example_list_calls)"
    by (rule list_example)
  have ld: "listDrafts example_config example_drafts_params ?env [] =
       (Returned example_drafts_page, example_drafts_calls)"
    by (rule listDrafts_example)
  have ne: "lr_threads example_page \<noteq> []" "lr_threads example_drafts_page \<noteq> []"
    by (simp_all add: example_page_def example_drafts_page_def)
  have nm: "normalizeMailbox (lp_folder (example_params None)) = ''INBOX''"
    by (simp add: example_params_def small_values)
  have a: "map th_id (lr_threads example_page)
       = map (\<lambda>ev. ''INBOX:'' @ show_int (ev_seqno ev)) (fst (fetch_emits ?env example_list_calls))"
    using T [THEN conjunct1, rule_format, OF l] ne(1) by (simp add: nm)
  have b: "map th_id (lr_threads example_drafts_page)
       = map (\<lambda>ev. ''Drafts:'' @ show_int (ev_seqno ev)) (fst (fetch_emits ?env example_drafts_calls))"
    using T [THEN conjunct2, THEN conjunct1, rule_format, OF ld] ne(2) by simp
  have hyp: "CHR '':'' \<notin> set ''INBOX'' \<and> ''INBOX'' \<noteq> []
        \<and> connect_emits ?env ([] @ connect_calls) = EvReady
        \<and> errback ?env ([] @ connect_calls @ [ImapOpenBox ''INBOX'']) = None"
    by (simp add: mailbox_env_simps)
  have sv: "serves_by_uid ?env \<and> ev_seqno listed_event \<noteq> ev_uid listed_event"
    by (simp add: mailbox_env_serves_by_uid listed_event_def)
  note C = T [THEN conjunct2, THEN conjunct2, THEN mp, OF hyp, unfolded Let_def]
  have s3: "''INBOX'' @ '':'' @ show_int (ev_seqno listed_event) = ''INBOX:3''"
    "ev_seqno listed_event = 3"
    by (simp_all add: listed_event_def small_values)
  have c1: "prefix (connect_calls @ [ImapOpenBox ''INBOX'', ImapFetch [Some 3] full_options])
        (snd (get example_config ''INBOX:3'' ?env []))"
    using C [THEN conjunct1] by (simp add: s3 small_values)
  have c2: "prefix (connect_calls @ [ImapOpenBox ''INBOX'', ImapMove [Some 3] ''Trash''])
        (snd (delete example_config ''INBOX:3'' ?env []))"
    using C [THEN conjunct2, THEN conjunct1] by (simp add: s3 small_values)
  have c3: "prefix (connect_calls @ [ImapOpenBox ''INBOX'', ImapAddFlags [Some 3] Seen_flag])
        (snd (markAsRead example_config [''INBOX:3''] ?env []))"
    using C [THEN conjunct2, THEN conjunct2, THEN conjunct1] by (simp add: s3 small_values)
  have c4: "prefix (connect_calls @ [ImapOpenBox ''INBOX'', ImapDelFlags [Some 3] Seen_flag])
        (snd (markAsUnread example_config [''INBOX:3''] ?env []))"
    using C [THEN conjunct2, THEN conjunct2, THEN conjunct2, THEN conjunct1] by (simp add: s3 small_values)
  have c5: "list_all (\<lambda>ev'. ev_uid ev' \<noteq> ev_uid listed_event)
        (fst (fetch_emits ?env (connect_calls @ [ImapOpenBox ''INBOX'', ImapFetch [Some 3] full_options])))"
    using C [THEN conjunct2, THEN conjunct2, THEN conjunct2, THEN conjunct2, THEN mp, OF sv]
    by (simp add: s3 small_values list_all_iff)
  have e1: "map th_id (lr_threads example_page) = [''INBOX:3'', ''INBOX:4'']"
    by (simp add: example_page_def)
  have e2: "map ev_uid (fst (fetch_emits ?env example_list_calls)) = [5, 9]"
    by (simp add: mailbox_env_simps example_list_calls_def example_fetch)
  have e3: "map ev_uid (fst (fetch_emits ?env
                        (connect_calls @ [ImapOpenBox ''INBOX'', ImapFetch [Some 3] full_options])))
       = [3]"
    by (simp add: mailbox_env_simps connect_calls_def mailbox_events_def example_mailbox_def)
  show ?thesis
    using l a e1 e2 ld b c1 c2 c3 c4 e3 c5 by (intro conjI)
qed


section \<open>\<^verbatim>\<open>connectImap\<close> and the order of calls (claim C5)\<close>

text \<open>
  Every wrapper and every combinator only adds calls to the history; the rules below follow
  the structure of the operations.
\<close>

lemma extendsI: "(\<And>env h. \<exists>rest. snd (p env h) = h @ rest) \<Longrightarrow> extends p"
  by (simp add: extends_def)

lemma extends_ret [intro!, simp]: "extends (ret x)"
  by (simp add: extends_def ret_def)

lemma extends_throw [intro!, simp]: "extends (throw t)"
  by (simp add: extends_def throw_def)

lemma extends_ask [intro!, simp]: "extends (ask f)"
  by (simp add: extends_def ask_def)

lemma extends_connectImap [intro!, simp]: "extends connectImap"
  by (simp add: extends_def connectImap_eq split: conn_event.split)

lemma extends_errback_call [intro!, simp]: "extends (errback_call c)"
  by (simp add: extends_def errback_call_def Let_def split: option.split)

lemma extends_openMailbox [intro!, simp]: "extends (openMailbox m)"
  by (simp add: openMailbox_def)

lemma extends_searchEmails [intro!, simp]: "extends (searchEmails c)"
  by (simp add: extends_def searchEmails_def Let_def split: sum.split)

lemma extends_fetchMessages [intro!, simp]: "extends (fetchMessages u opts)"
  by (simp add: extends_def fetchMessages_def Let_def split: prod.split option.split)

lemma extends_parseEmail [intro!, simp]: "extends (parseEmail r)"
  by (simp add: extends_def parseEmail_def split: sum.split)

lemma extends_sendMail [intro!, simp]: "extends (sendMail m)"
  by (simp add: extends_def sendMail_def Let_def split: sum.split)

lemma extends_sanitize [intro!, simp]: "extends (sanitize s)"
  by (simp add: extends_def sanitize_def split: sum.split)

lemma extends_getBoxes [intro!, simp]: "extends getBoxes"
  by (simp add: extends_def getBoxes_def Let_def split: sum.split)

lemma extends_move_or_flag [intro!, simp]: "extends (move_or_flag u)"
  by (simp add: extends_def move_or_flag_def Let_def split: option.split)

lemma extends_handle_error [intro!, simp]: "extends (handle_error config operation err)"
  by (simp add: extends_def handle_error_history)

lemma extends_await [intro!]:
  assumes "extends m" and "\<And>x. extends (f x)"
  shows "extends (await m f)"
proof (rule extendsI)
  fix env h
  obtain r1 where r1: "snd (m env h) = h @ r1" using assms(1) unfolding extends_def by blast
  show "\<exists>rest. snd (await m f env h) = h @ rest"
  proof (cases "m env h")
    case (Pair o1 h1)
    then have h1: "h1 = h @ r1" using r1 by simp
    show ?thesis
    proof (cases o1)
      case (Returned x)
      obtain r2 where "snd (f x env h1) = h1 @ r2"
        using assms(2) [of x] unfolding extends_def by blast
      then have "snd (await m f env h) = h @ (r1 @ r2)" using Pair Returned h1 by (simp add: await_def)
      then show ?thesis by blast
    qed (use Pair h1 in \<open>simp_all add: await_def\<close>)
  qed
qed

lemma extends_try_catch [intro!]:
  assumes "extends m" and "\<And>t. extends (handler t)"
  shows "extends (try_catch m handler)"
proof (rule extendsI)
  fix env h
  obtain r1 where r1: "snd (m env h) = h @ r1" using assms(1) unfolding extends_def by blast
  show "\<exists>rest. snd (try_catch m handler env h) = h @ rest"
  proof (cases "m env h")
    case (Pair o1 h1)
    then have h1: "h1 = h @ r1" using r1 by simp
    show ?thesis
    proof (cases o1)
      case (Threw t)
      obtain r2 where "snd (handler t env h1) = h1 @ r2"
        using assms(2) [of t] unfolding extends_def by blast
      then have "snd (try_catch m handler env h) = h @ (r1 @ r2)"
        using Pair Threw h1 by (simp add: try_catch_def)
      then show ?thesis by blast
    qed (use Pair h1 in \<open>simp_all add: try_catch_def\<close>)
  qed
qed

lemma extends_withErrorHandler [intro!]:
  "extends fn \<Longrightarrow> extends (withErrorHandler config operation fn)"
  unfolding withErrorHandler_def by (rule extends_try_catch) simp_all

lemma extends_await_all [intro!]:
  assumes "\<And>x. extends (f x)"
  shows "extends (await_all f xs)"
  by (induction xs) (auto intro: assms)

lemma extends_for_each [intro!]:
  assumes "\<And>x. extends (body x)"
  shows "extends (for_each xs body)"
  by (induction xs) (auto intro: assms)

lemma extends_case_list [intro!]:
  "extends a \<Longrightarrow> (\<And>y ys. extends (b y ys)) \<Longrightarrow> extends (case xs of [] \<Rightarrow> a | y # ys \<Rightarrow> b y ys)"
  by (cases xs) simp_all

lemma extends_case_option [intro!]:
  "extends a \<Longrightarrow> (\<And>y. extends (b y)) \<Longrightarrow> extends (case v of None \<Rightarrow> a | Some y \<Rightarrow> b y)"
  by (cases v) simp_all

lemma extends_if [intro!]:
  "extends a \<Longrightarrow> extends b \<Longrightarrow> extends (if c then a else b)"
  by simp

lemma cbw_connect_calls [simp]: "connect_before_work (connect_calls @ rest)"
  by (simp add: connect_before_work_def connect_calls_def)

lemma cbw_quiet:
  "list_all (\<lambda>c. \<not> imap_work c \<and> c \<noteq> ImapConnect) cs \<Longrightarrow> connect_before_work cs"
  by (induction cs) (auto simp: connect_before_work_def)

lemma cbw_quiet_append:
  "list_all (\<lambda>c. \<not> imap_work c \<and> c \<noteq> ImapConnect) cs \<Longrightarrow> connect_before_work ds
   \<Longrightarrow> connect_before_work (cs @ ds)"
  by (induction cs) (auto simp: connect_before_work_def)

lemma cbw_append_quiet:
  "connect_before_work cs \<Longrightarrow> list_all (\<lambda>c. \<not> imap_work c \<and> c \<noteq> ImapConnect) ds
   \<Longrightarrow> connect_before_work (cs @ ds)"
proof (induction cs)
  case Nil
  then show ?case by (simp add: cbw_quiet)
next
  case (Cons c cs)
  then show ?case by (cases "c = ImapConnect") (auto simp: connect_before_work_def)
qed

lemma quietI:
  "(\<And>env h. \<exists>rest. snd (p env h) = h @ rest
       \<and> list_all (\<lambda>c. \<not> imap_work c \<and> c \<noteq> ImapConnect) rest) \<Longrightarrow> quiet p"
  by (simp add: quiet_def)

lemma quiet_ret [simp]: "quiet (ret x)"
  by (simp add: quiet_def ret_def)

lemma quiet_sendMail [simp]: "quiet (sendMail m)"
  by (simp add: quiet_def sendMail_def Let_def split: sum.split)

lemma quiet_sanitize [simp]: "quiet (sanitize s)"
  by (simp add: quiet_def sanitize_def split: sum.split)

lemma quiet_ask [simp]: "quiet (ask f)"
  by (simp add: quiet_def ask_def)

lemma quiet_handle_error [simp]: "quiet (handle_error config operation err)"
  unfolding quiet_def handle_error_def throw_def await_def deleteActiveConnection_def Let_def
  by (simp split: option.split)

lemma quiet_await:
  assumes "quiet m" and "\<And>x. quiet (f x)"
  shows "quiet (await m f)"
proof (rule quietI)
  fix env h
  obtain r1 where r1: "snd (m env h) = h @ r1"
    and q1: "list_all (\<lambda>c. \<not> imap_work c \<and> c \<noteq> ImapConnect) r1"
    using assms(1) unfolding quiet_def by blast
  show "\<exists>rest. snd (await m f env h) = h @ rest
          \<and> list_all (\<lambda>c. \<not> imap_work c \<and> c \<noteq> ImapConnect) rest"
  proof (cases "m env h")
    case (Pair o1 h1)
    then have h1: "h1 = h @ r1" using r1 by simp
    show ?thesis
    proof (cases o1)
      case (Returned x)
      obtain r2 where "snd (f x env h1) = h1 @ r2"
        and "list_all (\<lambda>c. \<not> imap_work c \<and> c \<noteq> ImapConnect) r2"
        using assms(2) [of x] unfolding quiet_def by blast
      then have "snd (await m f env h) = h @ (r1 @ r2)
                 \<and> list_all (\<lambda>c. \<not> imap_work c \<and> c \<noteq> ImapConnect) (r1 @ r2)"
        using Pair Returned h1 q1 by (simp add: await_def)
      then show ?thesis by blast
    qed (use Pair h1 q1 in \<open>simp_all add: await_def\<close>)
  qed
qed

lemma quiet_prepareEmail [simp]: "quiet (prepareEmail config data)"
  unfolding prepareEmail_def Let_def by (rule quiet_await) simp_all

lemma cbwI:
  "(\<And>env h. \<exists>calls. snd (p env h) = h @ calls \<and> connect_before_work calls)
   \<Longrightarrow> connects_first p"
  by (simp add: connects_first_def)

lemma starts_cbw: "starts_with_connect p \<Longrightarrow> connects_first p"
  unfolding starts_with_connect_def connects_first_def
  by (metis cbw_connect_calls)

lemma quiet_cbw: "quiet p \<Longrightarrow> connects_first p"
  unfolding quiet_def connects_first_def by (metis cbw_quiet)

lemma starts_await_connect:
  assumes "\<And>x. extends (f x)"
  shows "starts_with_connect (await connectImap f)"
  unfolding starts_with_connect_def
proof (intro allI)
  fix env h
  show "\<exists>rest. snd (await connectImap f env h) = h @ connect_calls @ rest"
  proof (cases "connect_emits env (h @ connect_calls)")
    case EvReady
    obtain r2 where "snd (f () env (h @ connect_calls)) = (h @ connect_calls) @ r2"
      using assms [of "()"] unfolding extends_def by blast
    then show ?thesis using EvReady by (simp add: await_def connectImap_eq)
  qed (simp_all add: await_def connectImap_eq)
qed

lemma starts_withErrorHandler:
  "starts_with_connect fn \<Longrightarrow> starts_with_connect (withErrorHandler config operation fn)"
  unfolding starts_with_connect_def using withErrorHandler_extends by blast

lemma starts_try_catch:
  assumes "starts_with_connect m" and "\<And>t. extends (handler t)"
  shows "starts_with_connect (try_catch m handler)"
  unfolding starts_with_connect_def
proof (intro allI)
  fix env h
  obtain r1 where r1: "snd (m env h) = h @ connect_calls @ r1"
    using assms(1) unfolding starts_with_connect_def by blast
  show "\<exists>rest. snd (try_catch m handler env h) = h @ connect_calls @ rest"
  proof (cases "m env h")
    case (Pair o1 h1)
    then have h1: "h1 = h @ connect_calls @ r1" using r1 by simp
    show ?thesis
    proof (cases o1)
      case (Threw t)
      obtain r2 where "snd (handler t env h1) = h1 @ r2"
        using assms(2) [of t] unfolding extends_def by blast
      then have "snd (try_catch m handler env h) = h @ connect_calls @ (r1 @ r2)"
        using Pair Threw h1 by (simp add: try_catch_def)
      then show ?thesis by blast
    qed (use Pair h1 in \<open>simp_all add: try_catch_def\<close>)
  qed
qed

lemma cbw_await_quiet_first:
  assumes "quiet m" and "\<And>x. connects_first (f x)"
  shows "connects_first (await m f)"
proof (rule cbwI)
  fix env h
  obtain r1 where r1: "snd (m env h) = h @ r1"
    and q1: "list_all (\<lambda>c. \<not> imap_work c \<and> c \<noteq> ImapConnect) r1"
    using assms(1) unfolding quiet_def by blast
  show "\<exists>calls. snd (await m f env h) = h @ calls \<and> connect_before_work calls"
  proof (cases "m env h")
    case (Pair o1 h1)
    then have h1: "h1 = h @ r1" using r1 by simp
    show ?thesis
    proof (cases o1)
      case (Returned x)
      obtain r2 where "snd (f x env h1) = h1 @ r2" and "connect_before_work r2"
        using assms(2) [of x] unfolding connects_first_def by blast
      then have "snd (await m f env h) = h @ (r1 @ r2) \<and> connect_before_work (r1 @ r2)"
        using Pair Returned h1 q1 by (simp add: await_def cbw_quiet_append)
      then show ?thesis by blast
    qed (use Pair h1 q1 in \<open>simp_all add: await_def cbw_quiet\<close>)
  qed
qed

lemma cbw_await_quiet_last:
  assumes "connects_first m" and "\<And>x. quiet (f x)"
  shows "connects_first (await m f)"
proof (rule cbwI)
  fix env h
  obtain r1 where r1: "snd (m env h) = h @ r1" and q1: "connect_before_work r1"
    using assms(1) unfolding connects_first_def by blast
  show "\<exists>calls. snd (await m f env h) = h @ calls \<and> connect_before_work calls"
  proof (cases "m env h")
    case (Pair o1 h1)
    then have h1: "h1 = h @ r1" using r1 by simp
    show ?thesis
    proof (cases o1)
      case (Returned x)
      obtain r2 where "snd (f x env h1) = h1 @ r2"
        and "list_all (\<lambda>c. \<not> imap_work c \<and> c \<noteq> ImapConnect) r2"
        using assms(2) [of x] unfolding quiet_def by blast
      then have "snd (await m f env h) = h @ (r1 @ r2) \<and> connect_before_work (r1 @ r2)"
        using Pair Returned h1 q1 by (simp add: await_def cbw_append_quiet)
      then show ?thesis by blast
    qed (use Pair h1 q1 in \<open>simp_all add: await_def\<close>)
  qed
qed

lemma cbw_withErrorHandler:
  assumes "connects_first fn"
  shows "connects_first (withErrorHandler config operation fn)"
proof (rule cbwI)
  fix env h
  obtain r1 where r1: "snd (fn env h) = h @ r1" and q1: "connect_before_work r1"
    using assms unfolding connects_first_def by blast
  show "\<exists>calls. snd (withErrorHandler config operation fn env h) = h @ calls
          \<and> connect_before_work calls"
  proof (cases "fn env h")
    case (Pair o1 h1)
    then have h1: "h1 = h @ r1" using r1 by simp
    show ?thesis
    proof (cases o1)
      case (Threw t)
      obtain r2 where
        "snd (handle_error config operation (as_raw t) env h1 :: 'a outcome \<times> history) = h1 @ r2"
        and "list_all (\<lambda>c. \<not> imap_work c \<and> c \<noteq> ImapConnect) r2"
        using quiet_handle_error [of config operation "as_raw t"] unfolding quiet_def by blast
      then have "snd (withErrorHandler config operation fn env h) = h @ (r1 @ r2)
                 \<and> connect_before_work (r1 @ r2)"
        using Pair Threw h1 q1 by (simp add: withErrorHandler_def try_catch_def cbw_append_quiet)
      then show ?thesis by blast
    qed (use Pair h1 q1 in \<open>simp_all add: withErrorHandler_def try_catch_def\<close>)
  qed
qed

lemma cbw_nil [simp]: "connect_before_work []"
  by (simp add: connect_before_work_def)

lemmas connect_first_intros =
  cbw_withErrorHandler starts_cbw starts_await_connect

text \<open>Operation by operation: no IMAP command before the first connect.\<close>

lemma get_connects: "connects_first (get config ident)"
  unfolding get_def Let_def by (intro connect_first_intros) auto

lemma list_connects: "connects_first (list config params)"
  unfolding list_def Let_def by (intro connect_first_intros) auto

lemma delete_connects: "connects_first (delete config ident)"
  unfolding delete_def Let_def by (intro connect_first_intros) auto

lemma modifyLabels_connects: "connects_first (modifyLabels config ids options)"
  unfolding modifyLabels_def Let_def by (intro connect_first_intros) auto

lemma markAsRead_connects: "connects_first (markAsRead config ids)"
  unfolding markAsRead_def Let_def by (intro connect_first_intros) auto

lemma markAsUnread_connects: "connects_first (markAsUnread config ids)"
  unfolding markAsUnread_def Let_def by (intro connect_first_intros) auto

lemma createDraft_connects: "connects_first (createDraft config data)"
  unfolding createDraft_def Let_def by (intro connect_first_intros) auto

lemma getDraft_connects: "connects_first (getDraft config ident)"
  unfolding getDraft_def Let_def by (intro connect_first_intros) auto

lemma listDrafts_connects: "connects_first (listDrafts config params)"
  unfolding listDrafts_def Let_def by (intro connect_first_intros) auto

lemma count_connects: "connects_first (count config)"
  unfolding count_def Let_def by (intro connect_first_intros) auto

lemma getAttachment_connects: "connects_first (getAttachment config messageId attachmentId)"
  unfolding getAttachment_def Let_def by (intro connect_first_intros) auto

lemma getUserLabels_connects: "connects_first (getUserLabels config)"
  unfolding getUserLabels_def Let_def by (intro connect_first_intros) auto

lemma createLabel_connects: "connects_first (createLabel config lbl)"
  unfolding createLabel_def Let_def by (intro connect_first_intros) auto

lemma updateLabel_connects: "connects_first (updateLabel config ident lbl)"
  unfolding updateLabel_def Let_def by (intro connect_first_intros) auto

lemma deleteLabel_connects: "connects_first (deleteLabel config ident)"
  unfolding deleteLabel_def Let_def by (intro connect_first_intros) auto

lemma saveSentEmail_connects: "connects_first (saveSentEmail m)"
  unfolding saveSentEmail_def
  by (intro starts_cbw starts_try_catch starts_await_connect) auto

lemma create_connects: "connects_first (create config data)"
  unfolding create_def
  by (intro cbw_withErrorHandler cbw_await_quiet_first cbw_await_quiet_last saveSentEmail_connects)
     simp_all

lemma sendDraft_connects: "connects_first (sendDraft config ident data)"
  unfolding sendDraft_def
  by (intro cbw_withErrorHandler cbw_await_quiet_first delete_connects) simp_all

lemma getTokens_quiet: "connects_first (getTokens c)"
  unfolding getTokens_def by (rule quiet_cbw) simp

lemma history_after_connects:
  "\<exists>calls. history_after config op env h = h @ calls \<and> connect_before_work calls"
proof -
  note c = connects_first_def [THEN iffD1, rule_format]
  show ?thesis
  proof (cases op)
    case (OpGet x) then show ?thesis using c [OF get_connects] by simp
  next
    case (OpList x) then show ?thesis using c [OF list_connects] by simp
  next
    case (OpCreate x) then show ?thesis using c [OF create_connects] by simp
  next
    case (OpDelete x) then show ?thesis using c [OF delete_connects] by simp
  next
    case (OpNormalizeIds x) then show ?thesis by simp
  next
    case (OpModifyLabels x y) then show ?thesis using c [OF modifyLabels_connects] by simp
  next
    case (OpMarkAsRead x) then show ?thesis using c [OF markAsRead_connects] by simp
  next
    case (OpMarkAsUnread x) then show ?thesis using c [OF markAsUnread_connects] by simp
  next
    case (OpCreateDraft x) then show ?thesis using c [OF createDraft_connects] by simp
  next
    case (OpGetDraft x) then show ?thesis using c [OF getDraft_connects] by simp
  next
    case (OpListDrafts x) then show ?thesis using c [OF listDrafts_connects] by simp
  next
    case (OpSendDraft x y) then show ?thesis using c [OF sendDraft_connects] by simp
  next
    case OpCount then show ?thesis using c [OF count_connects] by simp
  next
    case (OpGetTokens x) then show ?thesis using c [OF getTokens_quiet] by simp
  next
    case (OpGetUserInfo x) then show ?thesis by simp
  next
    case (OpGetAttachment x y) then show ?thesis using c [OF getAttachment_connects] by simp
  next
    case OpGetUserLabels then show ?thesis using c [OF getUserLabels_connects] by simp
  next
    case (OpGetLabel x) then show ?thesis by simp
  next
    case (OpCreateLabel x) then show ?thesis using c [OF createLabel_connects] by simp
  next
    case (OpUpdateLabel x y) then show ?thesis using c [OF updateLabel_connects] by simp
  next
    case (OpDeleteLabel x) then show ?thesis using c [OF deleteLabel_connects] by simp
  next
    case OpGetEmailAliases then show ?thesis by simp
  next
    case (OpRevokeRefreshToken x) then show ?thesis by simp
  next
    case OpGetScope then show ?thesis by simp
  qed
qed

text \<open>
  Claim C5, as amended. \<^verbatim>\<open>connectImap\<close> does not look at the state of the session: every
  call registers a \<^verbatim>\<open>ready\<close> and an \<^verbatim>\<open>error\<close> listener and calls \<^verbatim>\<open>imap.connect()\<close>, and it
  returns when the client then emits \<^verbatim>\<open>ready\<close>, throws when it emits \<^verbatim>\<open>error\<close> and stays
  pending otherwise. In every public operation no IMAP command comes before the first
  \<^verbatim>\<open>imap.connect()\<close> of the operation.
\<close>

theorem connectImap_always_connects:
  "snd (connectImap env h) = h @ connect_calls
   \<and> fst (connectImap env h) =
        (case connect_emits env (h @ connect_calls) of
           EvReady \<Rightarrow> Returned ()
         | EvError err \<Rightarrow> Threw (Raw err)
         | EvNone \<Rightarrow> Pending)
   \<and> (\<exists>calls. history_after config op env h = h @ calls \<and> connect_before_work calls)"
  using history_after_connects [of config op env h]
  by (simp add: connectImap_eq split: conn_event.split)

text \<open>A second \<^verbatim>\<open>connectImap\<close> after a first one, and the calls of a \<^verbatim>\<open>delete\<close>.\<close>

theorem connectImap_always_connects_witness:
  "snd (connectImap calm_env connect_calls) = connect_calls @ connect_calls
   \<and> fst (connectImap calm_env connect_calls) = Returned ()
   \<and> (\<exists>calls. history_after example_config (OpDelete ''INBOX:7'') calm_env [] = [] @ calls
          \<and> connect_before_work calls)"
  using connectImap_always_connects [of calm_env connect_calls example_config "OpDelete ''INBOX:7''"]
        connectImap_always_connects [of calm_env "[]" example_config "OpDelete ''INBOX:7''"]
  by (simp add: calm_env_simps)

text \<open>
  Claim C5 as stated fails: on a session that is ready, \<^verbatim>\<open>connectImap\<close> registers its
  listeners and calls \<^verbatim>\<open>imap.connect()\<close> again; and with a client that does not emit
  \<^verbatim>\<open>ready\<close> a second time it never returns.
\<close>

theorem connect_not_idempotent_counterexample:
  "connectImap calm_env [] = (Returned (), connect_calls)
   \<and> connectImap calm_env connect_calls = (Returned (), connect_calls @ connect_calls)
   \<and> connect_calls @ connect_calls \<noteq> connect_calls
   \<and> connectImap (calm_env\<lparr>connect_emits := once_ready\<rparr>) [] = (Returned (), connect_calls)
   \<and> connectImap (calm_env\<lparr>connect_emits := once_ready\<rparr>) connect_calls
       = (Pending, connect_calls @ connect_calls)"
  by (simp add: connectImap_eq calm_env_simps once_ready_def connect_calls_def)


end
